theory Spec2Isabelle
  imports Complex_Main
begin

section \<open>JavaScript numbers\<close>

text \<open>
  The program computes with JavaScript numbers, the binary64 values of IEEE 754. A finite
  number is modelled by the rational it denotes (\<open>Fin 0\<close> is the positive zero); the
  negative zero, the two infinities and NaN are values of their own. An operation yields
  the exact result rounded to the nearest binary64 value, ties to even, with gradual
  underflow and with overflow to an infinity. The numbers that the program holds are
  \<open>Fin a\<close> for the rationals \<open>a\<close> that binary64 represents; the literals and the results
  of the operations are such numbers by \<open>round64\<close>.
\<close>

datatype jsnum = Fin rat | NegZero | PInf | NInf | NaN

text \<open>The number of binary digits of a positive integer.\<close>

function bits :: "int \<Rightarrow> nat" where
  "bits n = (if n \<le> 0 then 0 else Suc (bits (n div 2)))"
  by pat_completeness auto
termination
  by (relation "measure nat") auto

declare bits.simps [simp del]

definition pow2 :: "int \<Rightarrow> rat" where
  "pow2 e = (if 0 \<le> e then 2 ^ nat e else 1 / 2 ^ nat (- e))"

text \<open>The exponent \<open>e\<close> of a positive rational: \<open>2 ^ e \<le> x < 2 ^ (e + 1)\<close>.\<close>

definition floor_log2 :: "rat \<Rightarrow> int" where
  "floor_log2 x =
     (if 1 \<le> x then int (bits \<lfloor>x\<rfloor>) - 1
      else - int (bits (\<lceil>1 / x\<rceil> - 1)))"

text \<open>The nearest integer, the even one of the two when \<open>x\<close> lies halfway.\<close>

definition round_even :: "rat \<Rightarrow> int" where
  "round_even x =
     (let f = \<lfloor>x\<rfloor>; d = x - of_int f
      in if d < 1 / 2 then f
         else if 1 / 2 < d then f + 1
         else if even f then f else f + 1)"

text \<open>
  Rounding to binary64: a significand of 53 bits at the exponent of \<open>x\<close>, the exponent
  not below \<open>- 1022\<close> (below it the numbers are subnormal, spaced \<open>2 ^ - 1074\<close> apart);
  a result of \<open>2 ^ 1024\<close> or more is an infinity, a result of zero keeps the sign.
\<close>

definition round64 :: "rat \<Rightarrow> jsnum" where
  "round64 x =
     (if x = 0 then Fin 0
      else
        (let e = max (floor_log2 \<bar>x\<bar>) (- 1022);
             q = pow2 (e - 52);
             y = of_int (round_even (\<bar>x\<bar> / q)) * q
         in if pow2 1024 \<le> y then (if 0 < x then PInf else NInf)
            else if y = 0 then (if 0 < x then Fin 0 else NegZero)
            else Fin (if 0 < x then y else - y)))"

fun is_nan :: "jsnum \<Rightarrow> bool" where
  "is_nan NaN = True"
| "is_nan x = False"

fun is_inf :: "jsnum \<Rightarrow> bool" where
  "is_inf PInf = True"
| "is_inf NInf = True"
| "is_inf x = False"

fun is_zero :: "jsnum \<Rightarrow> bool" where
  "is_zero (Fin a) = (a = 0)"
| "is_zero NegZero = True"
| "is_zero x = False"

text \<open>The sign bit.\<close>

fun negative :: "jsnum \<Rightarrow> bool" where
  "negative (Fin a) = (a < 0)"
| "negative NegZero = True"
| "negative NInf = True"
| "negative x = False"

fun magnitude :: "jsnum \<Rightarrow> rat" where
  "magnitude (Fin a) = a"
| "magnitude x = 0"

definition signed_inf :: "bool \<Rightarrow> jsnum" where
  "signed_inf neg = (if neg then NInf else PInf)"

definition signed_zero :: "bool \<Rightarrow> jsnum" where
  "signed_zero neg = (if neg then NegZero else Fin 0)"

text \<open>
  \<^verbatim>\<open>x * y\<close>: an infinity times a zero is NaN; otherwise the sign is the exclusive or
  of the signs.
\<close>

definition jmul :: "jsnum \<Rightarrow> jsnum \<Rightarrow> jsnum" where
  "jmul x y =
     (if is_nan x \<or> is_nan y then NaN
      else if (is_inf x \<and> is_zero y) \<or> (is_zero x \<and> is_inf y) then NaN
      else if is_inf x \<or> is_inf y then signed_inf (negative x \<noteq> negative y)
      else if is_zero x \<or> is_zero y then signed_zero (negative x \<noteq> negative y)
      else round64 (magnitude x * magnitude y))"

text \<open>
  \<^verbatim>\<open>x / y\<close>: an infinity by an infinity and a zero by a zero are NaN; a finite nonzero
  number by a zero is an infinity, whose sign is the exclusive or of the signs.
\<close>

definition jdiv :: "jsnum \<Rightarrow> jsnum \<Rightarrow> jsnum" where
  "jdiv x y =
     (if is_nan x \<or> is_nan y then NaN
      else if (is_inf x \<and> is_inf y) \<or> (is_zero x \<and> is_zero y) then NaN
      else if is_inf x then signed_inf (negative x \<noteq> negative y)
      else if is_inf y then signed_zero (negative x \<noteq> negative y)
      else if is_zero y then signed_inf (negative x \<noteq> negative y)
      else if is_zero x then signed_zero (negative x \<noteq> negative y)
      else round64 (magnitude x / magnitude y))"

text \<open>
  Truthiness of a number in a condition: the two zeros and \<^verbatim>\<open>NaN\<close> are falsy.
\<close>

fun truthy_num :: "jsnum \<Rightarrow> bool" where
  "truthy_num (Fin a) = (a \<noteq> 0)"
| "truthy_num NegZero = False"
| "truthy_num NaN = False"
| "truthy_num PInf = True"
| "truthy_num NInf = True"

text \<open>
  What \<^verbatim>\<open>parseFloat\<close> reads from the text that \<^verbatim>\<open>toString\<close> writes for a number: the
  number itself, except that the negative zero is written \<^verbatim>\<open>0\<close>.
\<close>

fun reparsed :: "jsnum \<Rightarrow> jsnum" where
  "reparsed NegZero = Fin 0"
| "reparsed x = x"

text \<open>Truthiness of a \<^verbatim>\<open>string | null\<close>: \<^verbatim>\<open>null\<close> and the empty string are falsy.\<close>

fun truthy_str :: "string option \<Rightarrow> bool" where
  "truthy_str None = False"
| "truthy_str (Some s) = (s \<noteq> [])"


section \<open>Data model (types.ts)\<close>

datatype FuelUnit = L_PER_100KM | KM_PER_L

datatype FuelType = diesel | gasoline

record Vehicle =
  id_v :: string
  name :: string
  fuelType :: FuelType
  consumptionValue :: jsnum
  consumptionUnit :: FuelUnit

record LocationPoint =
  lat :: jsnum
  lon :: jsnum
  label :: string

record RouteResult =
  distanceKm :: jsnum
  durationMin :: jsnum
  geometry :: string

record FuelPriceData =
  price :: jsnum
  lastUpdated :: string
  isAuto :: bool

record TripCalculation =
  litersNeeded :: jsnum
  totalCost :: jsnum
  costPer100Km :: jsnum


section \<open>Local persistence (storageService.ts)\<close>

text \<open>
  The three localStorage entries. Each entry is the text stored under its key, described
  by what the reader of that key makes of it: \<^verbatim>\<open>JSON.parse\<close> either throws or yields a
  vehicle list; \<^verbatim>\<open>parseFloat\<close> yields a number (NaN for a text that is not numeric), and
  the empty text is falsy before it is parsed. \<open>None\<close> is \<^verbatim>\<open>getItem\<close> returning
  \<^verbatim>\<open>null\<close>. \<open>Serialized vs\<close> is the text that \<^verbatim>\<open>JSON.stringify\<close> writes for \<open>vs\<close> when
  the consumption values of \<open>vs\<close> are finite and not the negative zero, the values that
  \<^verbatim>\<open>JSON.parse\<close> reads back unchanged.
\<close>

datatype vehicles_text = Unparsable | Serialized "Vehicle list"

datatype price_text = EmptyText | NumberText jsnum

record localStorage =
  VEHICLES :: "vehicles_text option"
  SELECTED_VEHICLE_ID :: "string option"
  LAST_PRICE :: "price_text option"

definition getStoredVehicles :: "localStorage \<Rightarrow> Vehicle list" where
  "getStoredVehicles ls =
     (case VEHICLES ls of
        None \<Rightarrow> []
      | Some Unparsable \<Rightarrow> []
      | Some (Serialized vs) \<Rightarrow> vs)"

definition saveStoredVehicles :: "Vehicle list \<Rightarrow> localStorage \<Rightarrow> localStorage" where
  "saveStoredVehicles vs ls = ls\<lparr>VEHICLES := Some (Serialized vs)\<rparr>"

definition getStoredSelectedVehicleId :: "localStorage \<Rightarrow> string option" where
  "getStoredSelectedVehicleId ls = SELECTED_VEHICLE_ID ls"

definition saveStoredSelectedVehicleId :: "string \<Rightarrow> localStorage \<Rightarrow> localStorage" where
  "saveStoredSelectedVehicleId i ls = ls\<lparr>SELECTED_VEHICLE_ID := Some i\<rparr>"

definition getStoredPrice :: "localStorage \<Rightarrow> jsnum option" where
  "getStoredPrice ls =
     (case LAST_PRICE ls of
        None \<Rightarrow> None
      | Some EmptyText \<Rightarrow> None
      | Some (NumberText x) \<Rightarrow> Some x)"

definition saveStoredPrice :: "jsnum \<Rightarrow> localStorage \<Rightarrow> localStorage" where
  "saveStoredPrice p ls = ls\<lparr>LAST_PRICE := Some (NumberText (reparsed p))\<rparr>"


section \<open>Remote services (apiService)\<close>

text \<open>
  The settled value of a promise.
\<close>

datatype 'a settled = Rejected | Fulfilled 'a

text \<open>
  What \<^verbatim>\<open>fetch\<close> gives back: the promise is rejected when the request fails on the
  network; a response has the flag \<^verbatim>\<open>ok\<close> and a body, and \<^verbatim>\<open>response.json()\<close> is
  rejected when the body is not JSON. The network is a function from the URL requested to
  the settled value of \<^verbatim>\<open>fetch\<close>.
\<close>

record 'd response =
  ok :: bool
  json :: "'d settled"

type_synonym 'd network = "string \<Rightarrow> 'd response settled"

text \<open>Everything that is thrown inside the \<^verbatim>\<open>try\<close> blocks of the adapters.\<close>

datatype thrown =
    FetchRejected
  | BodyNotJson
  | SearchError
  | RouteFetchError
  | NoRouteError

definition NOMINATIM_BASE :: string where
  "NOMINATIM_BASE = ''https://nominatim.openstreetmap.org''"

definition OSRM_BASE :: string where
  "OSRM_BASE = ''https://router.project-osrm.org''"

subsection \<open>searchLocation\<close>

record NominatimResult =
  place_id :: jsnum
  lat_s :: string
  lon_s :: string
  display_name :: string

text \<open>
  The result of a call of \<^verbatim>\<open>searchLocation\<close>: the URLs it passed to \<^verbatim>\<open>fetch\<close>, and the
  settled value of the promise it returns.
\<close>

record searched =
  requested :: "string list"
  returned :: "LocationPoint list settled"

definition search_url :: "(string \<Rightarrow> string) \<Rightarrow> string \<Rightarrow> string" where
  "search_url encodeURIComponent query =
     NOMINATIM_BASE @ ''/search?format=json&q='' @ encodeURIComponent query
       @ ''&addressdetails=1&limit=5''"

text \<open>
  The \<^verbatim>\<open>try\<close> block of \<^verbatim>\<open>searchLocation\<close>; \<^verbatim>\<open>encodeURIComponent\<close> and \<^verbatim>\<open>parseFloat\<close>
  are the functions of the JavaScript library.
\<close>

definition searchLocation_try ::
  "(string \<Rightarrow> string) \<Rightarrow> (string \<Rightarrow> jsnum) \<Rightarrow> NominatimResult list network \<Rightarrow> string
     \<Rightarrow> thrown + LocationPoint list" where
  "searchLocation_try encodeURIComponent parseFloat fetch query =
     (case fetch (search_url encodeURIComponent query) of
        Rejected \<Rightarrow> Inl FetchRejected
      | Fulfilled response \<Rightarrow>
          if \<not> ok response then Inl SearchError
          else
            (case json response of
               Rejected \<Rightarrow> Inl BodyNotJson
             | Fulfilled data \<Rightarrow>
                 Inr (map (\<lambda>item. \<lparr> lat = parseFloat (lat_s item),
                                     lon = parseFloat (lon_s item),
                                     label = display_name item \<rparr>) data)))"

definition searchLocation ::
  "(string \<Rightarrow> string) \<Rightarrow> (string \<Rightarrow> jsnum) \<Rightarrow> NominatimResult list network \<Rightarrow> string
     \<Rightarrow> searched" where
  "searchLocation encodeURIComponent parseFloat fetch query =
     (if query = [] \<or> length query < 3
      then \<lparr> requested = [], returned = Fulfilled [] \<rparr>
      else
        \<lparr> requested = [search_url encodeURIComponent query],
          returned =
            (case searchLocation_try encodeURIComponent parseFloat fetch query of
               Inr points \<Rightarrow> Fulfilled points
             | Inl error \<Rightarrow> Fulfilled []) \<rparr>)"

subsection \<open>calculateRoute\<close>

text \<open>
  The body of the routing service's answer, as far as the code reads it: \<^verbatim>\<open>code\<close> and
  \<^verbatim>\<open>routes\<close> may be missing; the geometry of a route is a JSON value of type \<open>'g\<close>.
\<close>

record 'g osrm_route =
  distance :: jsnum
  duration :: jsnum
  geometry_json :: 'g

record 'g osrm_data =
  code :: "string option"
  routes :: "'g osrm_route list option"

definition route_url :: "(jsnum \<Rightarrow> string) \<Rightarrow> LocationPoint \<Rightarrow> LocationPoint \<Rightarrow> string" where
  "route_url toString start end' =
     (let coords = toString (lon start) @ '','' @ toString (lat start) @ '';''
                     @ toString (lon end') @ '','' @ toString (lat end')
      in OSRM_BASE @ ''/route/v1/driving/'' @ coords @ ''?overview=full&geometries=geojson'')"

text \<open>
  The \<^verbatim>\<open>try\<close> block of \<^verbatim>\<open>calculateRoute\<close>; \<^verbatim>\<open>toString\<close> is the conversion of a number
  in a template string and \<^verbatim>\<open>JSON_stringify\<close> is \<^verbatim>\<open>JSON.stringify\<close> on a geometry.
\<close>

definition calculateRoute_try ::
  "(jsnum \<Rightarrow> string) \<Rightarrow> ('g \<Rightarrow> string) \<Rightarrow> 'g osrm_data network
     \<Rightarrow> LocationPoint \<Rightarrow> LocationPoint \<Rightarrow> thrown + RouteResult" where
  "calculateRoute_try toString JSON_stringify fetch start end' =
     (case fetch (route_url toString start end') of
        Rejected \<Rightarrow> Inl FetchRejected
      | Fulfilled response \<Rightarrow>
          if \<not> ok response then Inl RouteFetchError
          else
            (case json response of
               Rejected \<Rightarrow> Inl BodyNotJson
             | Fulfilled data \<Rightarrow>
                 if code data \<noteq> Some ''Ok'' then Inl NoRouteError
                 else
                   (case routes data of
                      None \<Rightarrow> Inl NoRouteError
                    | Some [] \<Rightarrow> Inl NoRouteError
                    | Some (route # others) \<Rightarrow>
                        Inr \<lparr> distanceKm = jdiv (distance route) (Fin 1000),
                              durationMin = jdiv (duration route) (Fin 60),
                              geometry = JSON_stringify (geometry_json route) \<rparr>)))"

definition calculateRoute ::
  "(jsnum \<Rightarrow> string) \<Rightarrow> ('g \<Rightarrow> string) \<Rightarrow> 'g osrm_data network
     \<Rightarrow> LocationPoint \<Rightarrow> LocationPoint \<Rightarrow> RouteResult option" where
  "calculateRoute toString JSON_stringify fetch start end' =
     (case calculateRoute_try toString JSON_stringify fetch start end' of
        Inr result \<Rightarrow> Some result
      | Inl error \<Rightarrow> None)"

text \<open>
  The three conditions of the routing contract, read off the settled value of \<^verbatim>\<open>fetch\<close>:
  whether a response arrived and is successful; the provider's status code, if the body
  could be read and has one; the candidate routes, none when the body could not be read
  or has no list.
\<close>

definition response_successful :: "'d response settled \<Rightarrow> bool" where
  "response_successful x = (case x of Rejected \<Rightarrow> False | Fulfilled response \<Rightarrow> ok response)"

definition provider_code :: "'g osrm_data response settled \<Rightarrow> string option" where
  "provider_code x =
     (case x of
        Rejected \<Rightarrow> None
      | Fulfilled response \<Rightarrow>
          (case json response of Rejected \<Rightarrow> None | Fulfilled data \<Rightarrow> code data))"

definition candidates :: "'g osrm_data response settled \<Rightarrow> 'g osrm_route list" where
  "candidates x =
     (case x of
        Rejected \<Rightarrow> []
      | Fulfilled response \<Rightarrow>
          (case json response of
             Rejected \<Rightarrow> []
           | Fulfilled data \<Rightarrow> (case routes data of None \<Rightarrow> [] | Some rs \<Rightarrow> rs)))"


subsection \<open>Example answers of the remote services\<close>

text \<open>
  The library functions at the texts and numbers of the examples: \<^verbatim>\<open>encodeURIComponent\<close>
  leaves a word of letters as it is.
\<close>

definition encode_word :: "string \<Rightarrow> string" where
  "encode_word query = query"

definition parseFloat_examples :: "string \<Rightarrow> jsnum" where
  "parseFloat_examples text =
     (if text = ''40.5'' then Fin (81 / 2)
      else if text = ''-3.75'' then Fin (- (15 / 4))
      else if text = ''41.5'' then Fin (83 / 2)
      else if text = ''2.25'' then Fin (9 / 4)
      else NaN)"

definition toString_examples :: "jsnum \<Rightarrow> string" where
  "toString_examples x =
     (if x = Fin (81 / 2) then ''40.5''
      else if x = Fin (- (15 / 4)) then ''-3.75''
      else if x = Fin (83 / 2) then ''41.5''
      else if x = Fin (9 / 4) then ''2.25''
      else ''NaN'')"

definition madrid :: LocationPoint where
  "madrid = \<lparr> lat = Fin (81 / 2), lon = Fin (- (15 / 4)), label = ''Madrid'' \<rparr>"

definition barcelona :: LocationPoint where
  "barcelona = \<lparr> lat = Fin (83 / 2), lon = Fin (9 / 4), label = ''Barcelona'' \<rparr>"

text \<open>A geocoder that knows the two cities, one that cannot be reached, one that answers 503.\<close>

definition geocoder :: "NominatimResult list network" where
  "geocoder url =
     (if url = search_url encode_word ''Madrid''
      then Fulfilled \<lparr> ok = True, json = Fulfilled
             [\<lparr> place_id = Fin 1, lat_s = ''40.5'', lon_s = ''-3.75'',
                display_name = ''Madrid'' \<rparr>] \<rparr>
      else if url = search_url encode_word ''Barcelona''
      then Fulfilled \<lparr> ok = True, json = Fulfilled
             [\<lparr> place_id = Fin 2, lat_s = ''41.5'', lon_s = ''2.25'',
                display_name = ''Barcelona'' \<rparr>] \<rparr>
      else Fulfilled \<lparr> ok = True, json = Fulfilled [] \<rparr>)"

definition unreachable :: "'d network" where
  "unreachable url = Rejected"

definition unavailable :: "'d network" where
  "unavailable url = Fulfilled \<lparr> ok = False, json = Rejected \<rparr>"

text \<open>
  A router that offers two candidates, one that reports that there is no route, and one
  whose answer has the code \<^verbatim>\<open>Ok\<close> and an empty list.
\<close>

definition router :: "string osrm_data network" where
  "router url = Fulfilled \<lparr> ok = True, json = Fulfilled
     \<lparr> code = Some ''Ok'',
       routes = Some [\<lparr> distance = Fin 150000, duration = Fin 5400, geometry_json = ''first'' \<rparr>,
                      \<lparr> distance = Fin 200000, duration = Fin 6000, geometry_json = ''second'' \<rparr>] \<rparr> \<rparr>"

definition router_no_route :: "string osrm_data network" where
  "router_no_route url = Fulfilled \<lparr> ok = True, json = Fulfilled
     \<lparr> code = Some ''NoRoute'',
       routes = Some [\<lparr> distance = Fin 150000, duration = Fin 5400, geometry_json = ''first'' \<rparr>] \<rparr> \<rparr>"

definition router_empty :: "string osrm_data network" where
  "router_empty url = Fulfilled \<lparr> ok = True, json = Fulfilled
     \<lparr> code = Some ''Ok'', routes = Some [] \<rparr> \<rparr>"

definition stringify_text :: "string \<Rightarrow> string" where
  "stringify_text g = [CHR 0x22] @ g @ [CHR 0x22]"


section \<open>Application state (App)\<close>

datatype alert = SaveVehicleFailed | DeleteVehicleFailed

text \<open>
  The \<^verbatim>\<open>useState\<close> cells of the component that the modelled code reads or writes,
  followed by what lies outside React: the local storage, the alerts shown so far, and
  the asynchronous calls that are in flight (the origin searches by their query, the
  price fetches and vehicle fetches by their number).

  A function of the component that runs inside a render (an effect, a handler) reads the
  state cells from the closure of that render and calls setters that change the state
  of the next render. Such a function takes two states: \<open>snap\<close>, the render it closes
  over, and \<open>st\<close>, the state it updates; it reads the world outside React from \<open>st\<close>.
\<close>

record app =
  vehicles :: "Vehicle list"
  selectedVehicleId :: "string option"
  origin :: "LocationPoint option"
  route :: "RouteResult option"
  debouncedOriginQuery :: string
  originSuggestions :: "LocationPoint list"
  fuelPrice :: FuelPriceData
  priceLoading :: bool
  calculation :: "TripCalculation option"
  storage :: localStorage
  alerts :: "alert list"
  originSearches :: "string list"
  priceFetches :: nat
  vehicleFetches :: nat

text \<open>
  The initial values of the state cells; \<open>now\<close> is the clock at the first render, and
  the price is the number that the literal \<^verbatim>\<open>1.60\<close> denotes.
\<close>

definition initial :: "string \<Rightarrow> localStorage \<Rightarrow> app" where
  "initial now ls =
     \<lparr> vehicles = [], selectedVehicleId = None, origin = None, route = None,
       debouncedOriginQuery = [], originSuggestions = [],
       fuelPrice = \<lparr> price = round64 (8 / 5), lastUpdated = now, isAuto = True \<rparr>,
       priceLoading = False, calculation = None,
       storage = ls, alerts = [], originSearches = [], priceFetches = 0,
       vehicleFetches = 0 \<rparr>"


section \<open>Cost calculator (calculateCost)\<close>

text \<open>
  The local \<^verbatim>\<open>lPer100\<close> of \<^verbatim>\<open>calculateCost\<close>: the consumption value, replaced by
  \<^verbatim>\<open>100 / consumptionValue\<close> when the unit is km per liter. There is no test for zero.
\<close>

definition lPer100 :: "Vehicle \<Rightarrow> jsnum" where
  "lPer100 vehicle =
     (if consumptionUnit vehicle = KM_PER_L
      then jdiv (Fin 100) (consumptionValue vehicle)
      else consumptionValue vehicle)"

text \<open>
  \<^verbatim>\<open>calculateCost\<close> sets \<^verbatim>\<open>calculation\<close> to \<^verbatim>\<open>null\<close> when the route or the selected
  id is falsy, returns without calling the setter when no vehicle has the selected id,
  and sets the computed object otherwise.
\<close>

definition calculateCost :: "app \<Rightarrow> app \<Rightarrow> app" where
  "calculateCost snap st =
     (case route snap of
        None \<Rightarrow> st\<lparr>calculation := None\<rparr>
      | Some r \<Rightarrow>
          if \<not> truthy_str (selectedVehicleId snap) then st\<lparr>calculation := None\<rparr>
          else
            (case List.find (\<lambda>v. Some (id_v v) = selectedVehicleId snap) (vehicles snap) of
               None \<Rightarrow> st
             | Some vehicle \<Rightarrow>
                 let litersNeeded = jmul (distanceKm r) (jdiv (lPer100 vehicle) (Fin 100));
                     totalCost = jmul litersNeeded (price (fuelPrice snap))
                 in st\<lparr>calculation := Some
                        \<lparr> litersNeeded = litersNeeded,
                          totalCost = totalCost,
                          costPer100Km = jmul (lPer100 vehicle) (price (fuelPrice snap)) \<rparr>\<rparr>))"

section \<open>Loading and persisting (the effects of App)\<close>

text \<open>
  \<^verbatim>\<open>refreshFuelPrice\<close> up to its \<^verbatim>\<open>await\<close>, and its continuation when \<^verbatim>\<open>fetchFuelPrice\<close>
  has settled; \<open>now\<close> is the clock at that moment.
\<close>

definition refreshFuelPrice :: "app \<Rightarrow> app" where
  "refreshFuelPrice st = st\<lparr>priceLoading := True, priceFetches := priceFetches st + 1\<rparr>"

definition refreshFuelPrice_settled :: "jsnum settled \<Rightarrow> string \<Rightarrow> app \<Rightarrow> app" where
  "refreshFuelPrice_settled fetched now st =
     (case fetched of
        Fulfilled p \<Rightarrow>
          st\<lparr>fuelPrice := \<lparr> price = p, lastUpdated = now, isAuto = True \<rparr>,
             priceLoading := False, priceFetches := priceFetches st - 1\<rparr>
      | Rejected \<Rightarrow> st\<lparr>priceLoading := False, priceFetches := priceFetches st - 1\<rparr>)"

text \<open>
  The \<^verbatim>\<open>onChange\<close> of the price input; \<open>typed\<close> is \<^verbatim>\<open>parseFloat(e.target.value)\<close>.
\<close>

definition priceInput_onChange :: "app \<Rightarrow> jsnum \<Rightarrow> app \<Rightarrow> app" where
  "priceInput_onChange snap typed st =
     st\<lparr>fuelPrice := (fuelPrice snap)\<lparr>price := typed, isAuto := False\<rparr>\<rparr>"

text \<open>
  The initialization effect (dependencies \<^verbatim>\<open>[]\<close>): it calls \<^verbatim>\<open>initializeData\<close>, which
  runs up to \<^verbatim>\<open>await getVehicles()\<close>, then reads the stored price and either adopts it
  or starts a refresh.
\<close>

definition initEffect :: "app \<Rightarrow> app" where
  "initEffect st =
     (let st1 = st\<lparr>vehicleFetches := vehicleFetches st + 1\<rparr>
      in case getStoredPrice (storage st1) of
           None \<Rightarrow> refreshFuelPrice st1
         | Some storedPrice \<Rightarrow>
             if truthy_num storedPrice
             then st1\<lparr>fuelPrice := (fuelPrice st1)\<lparr>price := storedPrice, isAuto := False\<rparr>\<rparr>
             else refreshFuelPrice st1)"

text \<open>
  The continuation of \<^verbatim>\<open>initializeData\<close> when \<^verbatim>\<open>getVehicles\<close> has settled. The local
  storage is read at that moment.
\<close>

definition initializeData_settled :: "Vehicle list settled \<Rightarrow> app \<Rightarrow> app" where
  "initializeData_settled fetched st =
     (case fetched of
        Fulfilled firebaseVehicles \<Rightarrow>
          if length firebaseVehicles > 0
          then st\<lparr>vehicles := firebaseVehicles, vehicleFetches := vehicleFetches st - 1\<rparr>
          else st\<lparr>vehicles := getStoredVehicles (storage st),
                  vehicleFetches := vehicleFetches st - 1\<rparr>
      | Rejected \<Rightarrow>
          st\<lparr>vehicles := getStoredVehicles (storage st),
             vehicleFetches := vehicleFetches st - 1\<rparr>)"

text \<open>The selection effect (dependencies \<^verbatim>\<open>[vehicles, selectedVehicleId]\<close>).\<close>

definition selectionEffect :: "app \<Rightarrow> app \<Rightarrow> app" where
  "selectionEffect snap st =
     (case vehicles snap of
        [] \<Rightarrow> st
      | first # others \<Rightarrow>
          if truthy_str (selectedVehicleId snap) then st
          else
            (let storedId = getStoredSelectedVehicleId (storage st)
             in if truthy_str storedId
                   \<and> List.find (\<lambda>v. Some (id_v v) = storedId) (vehicles snap) \<noteq> None
                then st\<lparr>selectedVehicleId := storedId\<rparr>
                else st\<lparr>selectedVehicleId := Some (id_v first)\<rparr>))"

text \<open>
  The three persistence effects (dependencies \<^verbatim>\<open>[vehicles]\<close>, \<^verbatim>\<open>[selectedVehicleId]\<close>,
  \<^verbatim>\<open>[fuelPrice.price]\<close>). Each writes the value of the render it belongs to.
\<close>

definition persistVehicles :: "app \<Rightarrow> app \<Rightarrow> app" where
  "persistVehicles snap st = st\<lparr>storage := saveStoredVehicles (vehicles snap) (storage st)\<rparr>"

definition persistSelected :: "app \<Rightarrow> app \<Rightarrow> app" where
  "persistSelected snap st =
     (case selectedVehicleId snap of
        None \<Rightarrow> st
      | Some i \<Rightarrow>
          if i = [] then st
          else st\<lparr>storage := saveStoredSelectedVehicleId i (storage st)\<rparr>)"

definition persistPrice :: "app \<Rightarrow> app \<Rightarrow> app" where
  "persistPrice snap st = st\<lparr>storage := saveStoredPrice (price (fuelPrice snap)) (storage st)\<rparr>"

text \<open>
  The autocomplete effect of the origin (dependencies \<^verbatim>\<open>[debouncedOriginQuery, origin]\<close>):
  it clears the suggestions, or calls \<^verbatim>\<open>searchLocation\<close> and leaves the promise in
  flight.
\<close>

definition originEffect :: "app \<Rightarrow> app \<Rightarrow> app" where
  "originEffect snap st =
     (if (case origin snap of None \<Rightarrow> False | Some p \<Rightarrow> label p = debouncedOriginQuery snap)
      then st\<lparr>originSuggestions := []\<rparr>
      else if length (debouncedOriginQuery snap) > 2
      then st\<lparr>originSearches := originSearches st @ [debouncedOriginQuery snap]\<rparr>
      else st\<lparr>originSuggestions := []\<rparr>)"

text \<open>
  The first render and its effects. React runs the effects of a render one after the
  other, in the order of their declaration, before any continuation of an \<^verbatim>\<open>await\<close>
  can run; all of them close over the first render \<open>s0\<close>. The effects of the
  destination and of routing are not part of the model: they touch none of its state.
\<close>

definition mount :: "string \<Rightarrow> localStorage \<Rightarrow> app" where
  "mount now ls =
     (let s0 = initial now ls;
          s1 = initEffect s0;
          s2 = selectionEffect s0 s1;
          s3 = persistVehicles s0 s2;
          s4 = persistSelected s0 s3;
          s5 = persistPrice s0 s4;
          s6 = originEffect s0 s5
      in calculateCost s0 s6)"


section \<open>Autocomplete (the events of the origin field)\<close>

text \<open>
  Two events: the debounced query takes a new value, after which the component renders
  again and the autocomplete effect runs; and the search in flight at position \<open>i\<close>
  settles on the answer of the network, after which \<^verbatim>\<open>.then(setOriginSuggestions)\<close>
  stores its result.
\<close>

datatype event =
    DebouncedOrigin string
  | SettledOriginSearch nat "NominatimResult list network"

definition step ::
  "(string \<Rightarrow> string) \<Rightarrow> (string \<Rightarrow> jsnum) \<Rightarrow> app \<Rightarrow> event \<Rightarrow> app" where
  "step encodeURIComponent parseFloat st e =
     (case e of
        DebouncedOrigin query \<Rightarrow>
          if query = debouncedOriginQuery st then st
          else (let snap = st\<lparr>debouncedOriginQuery := query\<rparr> in originEffect snap snap)
      | SettledOriginSearch i fetch \<Rightarrow>
          if i < length (originSearches st)
          then
            (let st1 = st\<lparr>originSearches :=
                            take i (originSearches st) @ drop (Suc i) (originSearches st)\<rparr>
             in case returned (searchLocation encodeURIComponent parseFloat fetch
                                 (originSearches st ! i)) of
                  Fulfilled points \<Rightarrow> st1\<lparr>originSuggestions := points\<rparr>
                | Rejected \<Rightarrow> st1)
          else st)"

definition run ::
  "(string \<Rightarrow> string) \<Rightarrow> (string \<Rightarrow> jsnum) \<Rightarrow> app \<Rightarrow> event list \<Rightarrow> app" where
  "run encodeURIComponent parseFloat st es = foldl (step encodeURIComponent parseFloat) st es"


section \<open>Saving and deleting vehicles (the handlers of App)\<close>

fun findIndex :: "('a \<Rightarrow> bool) \<Rightarrow> 'a list \<Rightarrow> nat option" where
  "findIndex P [] = None"
| "findIndex P (x # xs) =
     (if P x then Some 0 else (case findIndex P xs of None \<Rightarrow> None | Some i \<Rightarrow> Some (Suc i)))"

text \<open>
  The continuation of \<^verbatim>\<open>handleSaveVehicle\<close> when \<^verbatim>\<open>saveVehicle\<close> has settled: \<open>snap\<close>
  is the render in which the handler was created, \<open>st\<close> the state at the moment of the
  continuation (the updater of \<^verbatim>\<open>setVehicles\<close> receives the current list). Before the
  \<^verbatim>\<open>await\<close> the handler changes nothing.
\<close>

definition handleSaveVehicle_settled :: "app \<Rightarrow> unit settled \<Rightarrow> Vehicle \<Rightarrow> app \<Rightarrow> app" where
  "handleSaveVehicle_settled snap saved v st =
     (case saved of
        Fulfilled u \<Rightarrow>
          (let st1 = st\<lparr>vehicles :=
                          (case findIndex (\<lambda>item. id_v item = id_v v) (vehicles st) of
                             Some idx \<Rightarrow> (vehicles st)[idx := v]
                           | None \<Rightarrow> vehicles st @ [v])\<rparr>
           in if \<not> truthy_str (selectedVehicleId snap)
              then st1\<lparr>selectedVehicleId := Some (id_v v)\<rparr>
              else st1)
      | Rejected \<Rightarrow> st\<lparr>alerts := alerts st @ [SaveVehicleFailed]\<rparr>)"

definition handleDeleteVehicle_settled :: "app \<Rightarrow> unit settled \<Rightarrow> string \<Rightarrow> app \<Rightarrow> app" where
  "handleDeleteVehicle_settled snap deleted i st =
     (case deleted of
        Fulfilled u \<Rightarrow>
          (let st1 = st\<lparr>vehicles := filter (\<lambda>v. id_v v \<noteq> i) (vehicles st)\<rparr>
           in if selectedVehicleId snap = Some i
              then st1\<lparr>selectedVehicleId := None\<rparr>
              else st1)
      | Rejected \<Rightarrow> st\<lparr>alerts := alerts st @ [DeleteVehicleFailed]\<rparr>)"


section \<open>Example states\<close>

text \<open>
  The scenario of the specification: a diesel car at 6 l/100 km, a route of 100 km, a
  price of 1.60 per liter.
\<close>

definition test_car :: Vehicle where
  "test_car = \<lparr> id_v = ''v1'', name = ''Test Car'', fuelType = diesel,
                 consumptionValue = Fin 6, consumptionUnit = L_PER_100KM \<rparr>"

definition route_100km :: RouteResult where
  "route_100km = \<lparr> distanceKm = Fin 100, durationMin = Fin 60, geometry = ''{}'' \<rparr>"

definition scenario :: app where
  "scenario = (initial ''2024-01-01T00:00:00.000Z'' \<lparr> VEHICLES = None,
                   SELECTED_VEHICLE_ID = None, LAST_PRICE = None \<rparr>)
     \<lparr> vehicles := [test_car], selectedVehicleId := Some ''v1'',
       route := Some route_100km \<rparr>"


text \<open>
  The second scenario of the specification: 15 km per liter, a route of 150 km, a price
  of 1.50 per liter.
\<close>

definition kmpl_car :: Vehicle where
  "kmpl_car = \<lparr> id_v = ''v3'', name = ''Km Car'', fuelType = gasoline,
                 consumptionValue = Fin 15, consumptionUnit = KM_PER_L \<rparr>"

definition route_150km :: RouteResult where
  "route_150km = \<lparr> distanceKm = Fin 150, durationMin = Fin 90, geometry = ''{}'' \<rparr>"

definition scenario_kmpl :: app where
  "scenario_kmpl = scenario
     \<lparr> vehicles := [test_car, kmpl_car], selectedVehicleId := Some ''v3'',
       route := Some route_150km,
       fuelPrice := \<lparr> price = Fin (3 / 2), lastUpdated = ''2024-01-01T00:00:00.000Z'',
                      isAuto = False \<rparr> \<rparr>"

text \<open>The first scenario with a car at 7 l/100 km.\<close>

definition seven_car :: Vehicle where
  "seven_car = \<lparr> id_v = ''v7'', name = ''Seven'', fuelType = diesel,
                  consumptionValue = Fin 7, consumptionUnit = L_PER_100KM \<rparr>"

definition scenario_seven :: app where
  "scenario_seven = scenario \<lparr> vehicles := [seven_car], selectedVehicleId := Some ''v7'' \<rparr>"

text \<open>
  A vehicle entered with a consumption of 0 km per liter, and the scenario with that
  vehicle selected.
\<close>

definition zero_kmpl_car :: Vehicle where
  "zero_kmpl_car = \<lparr> id_v = ''v2'', name = ''Zero'', fuelType = gasoline,
                      consumptionValue = Fin 0, consumptionUnit = KM_PER_L \<rparr>"

definition scenario_zero :: app where
  "scenario_zero = scenario \<lparr> vehicles := [zero_kmpl_car], selectedVehicleId := Some ''v2'' \<rparr>"

text \<open>
  States that hold a calculation made earlier for the test car: one whose route has been
  cleared, one whose selection has been cleared, and one whose selected id names no
  vehicle of the list.
\<close>

definition earlier_calculation :: TripCalculation where
  "earlier_calculation =
     \<lparr> litersNeeded = Fin 6, totalCost = Fin (1351079888211149 / 2 ^ 47),
       costPer100Km = Fin (1351079888211149 / 2 ^ 47) \<rparr>"

definition scenario_no_route :: app where
  "scenario_no_route = scenario \<lparr> route := None, calculation := Some earlier_calculation \<rparr>"

definition scenario_no_selection :: app where
  "scenario_no_selection =
     scenario \<lparr> selectedVehicleId := None, calculation := Some earlier_calculation \<rparr>"

definition scenario_unknown_id :: app where
  "scenario_unknown_id =
     scenario \<lparr> selectedVehicleId := Some ''v9'', calculation := Some earlier_calculation \<rparr>"


text \<open>
  A local storage left by an earlier visit, with one vehicle, and an empty one.
\<close>

definition garage :: localStorage where
  "garage = \<lparr> VEHICLES = Some (Serialized [test_car]), SELECTED_VEHICLE_ID = Some ''v1'',
               LAST_PRICE = None \<rparr>"

definition empty_storage :: localStorage where
  "empty_storage = \<lparr> VEHICLES = None, SELECTED_VEHICLE_ID = None, LAST_PRICE = None \<rparr>"

text \<open>
  A first visit on an empty storage in which the user never edits the price: the page
  loads, the automatic refresh resolves with 1.625, and the render that follows runs the
  effects that depend on the price.
\<close>

definition first_visit :: app where
  "first_visit =
     (let s1 = mount ''2024-01-01T10:00:00.000Z'' empty_storage;
          s2 = refreshFuelPrice_settled (Fulfilled (Fin (13 / 8)))
                 ''2024-01-01T10:00:01.000Z'' s1;
          s3 = persistPrice s2 s2
      in calculateCost s2 s3)"

text \<open>
  The user types Madrid, then Barcelona; the search for Barcelona resolves first, the
  search for Madrid after it.
\<close>

definition madrid_then_barcelona :: "event list" where
  "madrid_then_barcelona =
     [DebouncedOrigin ''Madrid'', DebouncedOrigin ''Barcelona'',
      SettledOriginSearch 1 geocoder, SettledOriginSearch 0 geocoder]"


text \<open>
  The first visit continued: the user types the price 0, and the render that follows
  runs the effects that depend on the price.
\<close>

definition zero_price_visit :: app where
  "zero_price_visit =
     (let s1 = priceInput_onChange first_visit (Fin 0) first_visit;
          s2 = persistPrice s1 s1
      in calculateCost s1 s2)"


section \<open>Evaluating the arithmetic\<close>

text \<open>
  The exponent function is correct, so that the rounding of a given rational is settled
  by its exponent and the nearest integer multiple of the spacing at that exponent.
\<close>

lemma pow2_powi: "pow2 e = power_int 2 e"
  by (simp add: pow2_def power_int_def inverse_eq_divide power_one_over)

lemma pow2_pos: "0 < pow2 e"
  by (simp add: pow2_powi)

lemma pow2_less: "pow2 a < pow2 b \<longleftrightarrow> a < b"
proof
  assume "pow2 a < pow2 b"
  show "a < b"
  proof (rule ccontr)
    assume "\<not> a < b"
    then have "b \<le> a" by simp
    then have "pow2 b \<le> pow2 a"
      unfolding pow2_powi by (intro power_int_increasing) simp_all
    with \<open>pow2 a < pow2 b\<close> show False by simp
  qed
next
  assume "a < b"
  then show "pow2 a < pow2 b"
    unfolding pow2_powi by (intro power_int_strict_increasing) simp_all
qed

lemma bits_bounds: "0 < n \<Longrightarrow> 2 ^ (bits n - 1) \<le> n \<and> n < 2 ^ bits n"
proof (induction n rule: bits.induct)
  case (1 n)
  show ?case
  proof (cases "n = 1")
    case True
    then show ?thesis by (simp add: bits.simps)
  next
    case False
    with "1.prems" have h: "0 < n div 2" by simp
    have b: "bits n = Suc (bits (n div 2))"
      using "1.prems" by (subst bits.simps) simp
    have pos: "0 < bits (n div 2)"
      using h by (subst bits.simps) simp
    from "1.IH" h "1.prems"
    have ih: "2 ^ (bits (n div 2) - 1) \<le> n div 2" "n div 2 < 2 ^ bits (n div 2)"
      by simp_all
    have "2 ^ (bits n - 1) = 2 * 2 ^ (bits (n div 2) - 1)"
      using pos by (simp add: b power_Suc [symmetric] del: power_Suc)
    also have "\<dots> \<le> 2 * (n div 2)" using ih(1) by simp
    also have "\<dots> \<le> n" by simp
    finally have lo: "(2::int) ^ (bits n - 1) \<le> n" .
    have "n < 2 * (n div 2) + 2" by presburger
    also have "\<dots> \<le> 2 * 2 ^ bits (n div 2)" using ih(2) by simp
    finally have "n < 2 ^ bits n" by (simp add: b)
    with lo show ?thesis by simp
  qed
qed

lemma floor_log2_bounds:
  assumes "0 < x"
  shows "pow2 (floor_log2 x) \<le> x \<and> x < pow2 (floor_log2 x + 1)"
proof (cases "1 \<le> x")
  case True
  define f where "f = \<lfloor>x\<rfloor>"
  have f: "0 < f" using True by (simp add: f_def)
  have fx: "of_int f \<le> x" "x < of_int f + 1" unfolding f_def by linarith+
  note b = bits_bounds [OF f]
  have k: "0 < bits f" using f by (subst bits.simps) simp
  have e: "floor_log2 x = int (bits f) - 1" using True by (simp add: floor_log2_def f_def)
  have "pow2 (int (bits f) - 1) = 2 ^ (bits f - 1)"
    using k by (simp add: pow2_def of_nat_diff)
  also have "\<dots> = of_int (2 ^ (bits f - 1))" by simp
  also have "\<dots> \<le> of_int f" using b by (simp only: of_int_le_iff)
  finally have lo: "pow2 (int (bits f) - 1) \<le> x" using fx by simp
  have "f + 1 \<le> 2 ^ bits f" using b by simp
  then have "(of_int (f + 1) :: rat) \<le> of_int (2 ^ bits f)" by (simp only: of_int_le_iff)
  then have "x < 2 ^ bits f" using fx by simp
  then have "x < pow2 (int (bits f))" by (simp add: pow2_def)
  with lo e show ?thesis by simp
next
  case False
  with assms have x: "0 < x" "x < 1" by simp_all
  define y where "y = 1 / x"
  have y: "1 < y" using x by (simp add: y_def)
  define m where "m = \<lceil>y\<rceil> - 1"
  have m: "0 < m" using y by (simp add: m_def less_ceiling_iff)
  have my: "of_int m < y" "y \<le> of_int m + 1"
    unfolding m_def by linarith+
  note b = bits_bounds [OF m]
  have k: "0 < bits m" using m by (subst bits.simps) simp
  have e: "floor_log2 x = - int (bits m)"
    using False by (simp add: floor_log2_def m_def y_def)
  have "(of_int (2 ^ (bits m - 1)) :: rat) \<le> of_int m" using b by (simp only: of_int_le_iff)
  then have "(2::rat) ^ (bits m - 1) \<le> of_int m" by simp
  then have lo: "2 ^ (bits m - 1) < y" using my by linarith
  have "m + 1 \<le> 2 ^ bits m" using b by simp
  then have "(of_int (m + 1) :: rat) \<le> of_int (2 ^ bits m)" by (simp only: of_int_le_iff)
  then have "of_int m + 1 \<le> (2::rat) ^ bits m" by simp
  then have hi: "y \<le> 2 ^ bits m" using my by linarith
  have "pow2 (- int (bits m)) = 1 / 2 ^ bits m" by (simp add: pow2_def)
  also have "\<dots> \<le> 1 / y" using hi y by (simp add: frac_le)
  finally have A: "pow2 (- int (bits m)) \<le> x" using x by (simp add: y_def)
  have "pow2 (- int (bits m) + 1) = 1 / 2 ^ (bits m - 1)"
    using k by (cases "bits m") (simp_all add: pow2_def nat_diff_distrib')
  moreover have "1 / y < 1 / 2 ^ (bits m - 1)" using lo y by (simp add: frac_less2)
  ultimately have B: "x < pow2 (- int (bits m) + 1)" using x by (simp add: y_def)
  from A B e show ?thesis by simp
qed

lemma floor_log2_eqI:
  assumes "pow2 e \<le> x" and "x < pow2 (e + 1)"
  shows "floor_log2 x = e"
proof -
  have x: "0 < x" using assms(1) pow2_pos [of e] by simp
  note b = floor_log2_bounds [OF x]
  have "pow2 e < pow2 (floor_log2 x + 1)" using assms(1) b by simp
  then have 1: "e < floor_log2 x + 1" by (simp add: pow2_less)
  have "pow2 (floor_log2 x) < pow2 (e + 1)" using assms(2) b by simp
  then have 2: "floor_log2 x < e + 1" by (simp add: pow2_less)
  from 1 2 show ?thesis by simp
qed


lemma round64_certificate:
  assumes "pow2 e \<le> x" and "x < pow2 (e + 1)" and "- 1022 \<le> e"
    and "q = pow2 (e - 52)" and "round_even (x / q) = n" and "y = of_int n * q"
    and "0 < y" and "y < pow2 1024"
  shows "round64 x = Fin y"
proof -
  have x: "0 < x" using assms(1) pow2_pos [of e] by simp
  then have "floor_log2 \<bar>x\<bar> = e"
    using floor_log2_eqI [OF assms(1,2)] by simp
  then have "max (floor_log2 \<bar>x\<bar>) (- 1022) = e" using assms(3) by simp
  then show ?thesis
    using x assms(4-8) by (simp add: round64_def Let_def)
qed

lemma jmul_certificate:
  assumes "0 < a" and "0 < b"
    and "pow2 e \<le> a * b" and "a * b < pow2 (e + 1)" and "- 1022 \<le> e"
    and "q = pow2 (e - 52)" and "round_even (a * b / q) = n" and "y = of_int n * q"
    and "0 < y" and "y < pow2 1024"
  shows "jmul (Fin a) (Fin b) = Fin y"
  using assms(1,2) round64_certificate [OF assms(3-10)] by (simp add: jmul_def)

lemma jdiv_certificate:
  assumes "0 < a" and "0 < b"
    and "pow2 e \<le> a / b" and "a / b < pow2 (e + 1)" and "- 1022 \<le> e"
    and "q = pow2 (e - 52)" and "round_even (a / b / q) = n" and "y = of_int n * q"
    and "0 < y" and "y < pow2 1024"
  shows "jdiv (Fin a) (Fin b) = Fin y"
  using assms(1,2) round64_certificate [OF assms(3-10)] by (simp add: jdiv_def)

lemma floor_rat_numeral: "\<lfloor>numeral a / numeral b :: rat\<rfloor> = numeral a div numeral b"
  by (metis floor_divide_of_int_eq of_int_numeral)

lemmas evaluate = pow2_def round_even_def Let_def floor_rat_numeral

text \<open>
  The literals and the operations of the examples. In decimal notation: 1.6 and 9.6 are
  the nearest numbers to the literals; 6 / 100 = 0.06, 100 * 0.06 = 6 and
  6 * 1.6 = 9.600000000000001; 100 / 15 = 6.666666666666667, divided by 100 it is
  0.06666666666666667, 150 times that is 10, 10 * 1.5 = 15 and 6.666666666666667 * 1.5 = 10;
  7 / 100 = 0.07 and 100 * 0.07 = 7.000000000000001, while 100 * 7 / 100 = 7.
\<close>

lemma literal_1_60: "round64 (8 / 5) = Fin (3602879701896397 / 2 ^ 51)"
  by (rule round64_certificate [where e = "0" and q = "1 / 2 ^ 52" and n = 7205759403792794])
     (simp_all add: evaluate)

lemma literal_9_60: "round64 (48 / 5) = Fin (5404319552844595 / 2 ^ 49)"
  by (rule round64_certificate [where e = "3" and q = "1 / 2 ^ 49" and n = 5404319552844595])
     (simp_all add: evaluate)

lemma six_per_100: "jdiv (Fin 6) (Fin 100) = Fin (1080863910568919 / 2 ^ 54)"
  by (rule jdiv_certificate [where e = "- 5" and q = "1 / 2 ^ 57" and n = 8646911284551352])
     (simp_all add: evaluate)

lemma liters_A: "jmul (Fin 100) (Fin (1080863910568919 / 2 ^ 54)) = Fin 6"
  by (rule jmul_certificate [where e = "2" and q = "1 / 2 ^ 50" and n = 6755399441055744])
     (simp_all add: evaluate)

lemma cost_A: "jmul (Fin 6) (Fin (3602879701896397 / 2 ^ 51)) = Fin (1351079888211149 / 2 ^ 47)"
  by (rule jmul_certificate [where e = "3" and q = "1 / 2 ^ 49" and n = 5404319552844596])
     (simp_all add: evaluate)

lemma rate_15_kmpl: "jdiv (Fin 100) (Fin 15) = Fin (7505999378950827 / 2 ^ 50)"
  by (rule jdiv_certificate [where e = "2" and q = "1 / 2 ^ 50" and n = 7505999378950827])
     (simp_all add: evaluate)

lemma rate_B_per_100: "jdiv (Fin (7505999378950827 / 2 ^ 50)) (Fin 100) = Fin (4803839602528529 / 2 ^ 56)"
  by (rule jdiv_certificate [where e = "- 4" and q = "1 / 2 ^ 56" and n = 4803839602528529])
     (simp_all add: evaluate)

lemma liters_B: "jmul (Fin 150) (Fin (4803839602528529 / 2 ^ 56)) = Fin 10"
  by (rule jmul_certificate [where e = "3" and q = "1 / 2 ^ 49" and n = 5629499534213120])
     (simp_all add: evaluate)

lemma cost_B: "jmul (Fin 10) (Fin (3 / 2)) = Fin 15"
  by (rule jmul_certificate [where e = "3" and q = "1 / 2 ^ 49" and n = 8444249301319680])
     (simp_all add: evaluate)

lemma cost_per_100_B: "jmul (Fin (7505999378950827 / 2 ^ 50)) (Fin (3 / 2)) = Fin 10"
  by (rule jmul_certificate [where e = "3" and q = "1 / 2 ^ 49" and n = 5629499534213120])
     (simp_all add: evaluate)

lemma seven_per_100: "jdiv (Fin 7) (Fin 100) = Fin (1261007895663739 / 2 ^ 54)"
  by (rule jdiv_certificate [where e = "- 4" and q = "1 / 2 ^ 56" and n = 5044031582654956])
     (simp_all add: evaluate)

lemma liters_C: "jmul (Fin 100) (Fin (1261007895663739 / 2 ^ 54)) = Fin (7881299347898369 / 2 ^ 50)"
  by (rule jmul_certificate [where e = "2" and q = "1 / 2 ^ 50" and n = 7881299347898369])
     (simp_all add: evaluate)

lemma product_C: "jmul (Fin 100) (Fin 7) = Fin 700"
  by (rule jmul_certificate [where e = "9" and q = "1 / 2 ^ 43" and n = 6157265115545600])
     (simp_all add: evaluate)

lemma quotient_C: "jdiv (Fin 700) (Fin 100) = Fin 7"
  by (rule jdiv_certificate [where e = "2" and q = "1 / 2 ^ 50" and n = 7881299347898368])
     (simp_all add: evaluate)

lemma cost_C: "jmul (Fin (7881299347898369 / 2 ^ 50)) (Fin (3602879701896397 / 2 ^ 51)) = Fin (788129934789837 / 2 ^ 46)"
  by (rule jmul_certificate [where e = "3" and q = "1 / 2 ^ 49" and n = 6305039478318696])
     (simp_all add: evaluate)

lemma cost_per_100_C: "jmul (Fin 7) (Fin (3602879701896397 / 2 ^ 51)) = Fin (6305039478318695 / 2 ^ 49)"
  by (rule jmul_certificate [where e = "3" and q = "1 / 2 ^ 49" and n = 6305039478318695])
     (simp_all add: evaluate)

lemma rate_20_kmpl: "jdiv (Fin 100) (Fin 20) = Fin 5"
  by (rule jdiv_certificate [where e = "2" and q = "1 / 2 ^ 50" and n = 5629499534213120])
     (simp_all add: evaluate)

lemma meters_150000: "jdiv (Fin 150000) (Fin 1000) = Fin 150"
  by (rule jdiv_certificate [where e = "7" and q = "1 / 2 ^ 45" and n = 5277655813324800])
     (simp_all add: evaluate)

lemma seconds_5400: "jdiv (Fin 5400) (Fin 60) = Fin 90"
  by (rule jdiv_certificate [where e = "6" and q = "1 / 2 ^ 46" and n = 6333186975989760])
     (simp_all add: evaluate)


section \<open>Properties of the cost calculator\<close>

lemma calculateCost_found:
  assumes "route snap = Some r"
    and "truthy_str (selectedVehicleId snap)"
    and "List.find (\<lambda>v. Some (id_v v) = selectedVehicleId snap) (vehicles snap) = Some v"
  shows "calculation (calculateCost snap st) = Some
           \<lparr> litersNeeded = jmul (distanceKm r) (jdiv (lPer100 v) (Fin 100)),
             totalCost = jmul (jmul (distanceKm r) (jdiv (lPer100 v) (Fin 100)))
                              (price (fuelPrice snap)),
             costPer100Km = jmul (lPer100 v) (price (fuelPrice snap)) \<rparr>"
  using assms by (simp add: calculateCost_def Let_def)

text \<open>
  C1, as the code has it. When a route is present and the selected id names a vehicle of
  the list, the calculation that \<^verbatim>\<open>calculateCost\<close> stores has
  \<open>litersNeeded = d * (n / 100)\<close>, \<open>totalCost = litersNeeded * p\<close> and
  \<open>costPer100Km = n * p\<close>, where \<open>d\<close> is the route's distance, \<open>p\<close> the fuel price and
  \<open>n\<close> the consumption value for liters per 100 km and \<open>100 / value\<close> for km per
  liter, and where every product and quotient is the binary64 operation. It holds for
  every distance, not only for \<open>d \<ge> 0\<close>.
\<close>

theorem calculateCost_formulas:
  assumes "route snap = Some r"
    and "truthy_str (selectedVehicleId snap)"
    and "List.find (\<lambda>v. Some (id_v v) = selectedVehicleId snap) (vehicles snap) = Some v"
  shows "\<exists>c n. calculation (calculateCost snap st) = Some c
           \<and> n = (if consumptionUnit v = KM_PER_L
                   then jdiv (Fin 100) (consumptionValue v) else consumptionValue v)
           \<and> litersNeeded c = jmul (distanceKm r) (jdiv n (Fin 100))
           \<and> totalCost c = jmul (litersNeeded c) (price (fuelPrice snap))
           \<and> costPer100Km c = jmul n (price (fuelPrice snap))"
  using calculateCost_found [OF assms, of st] by (simp add: lPer100_def)

text \<open>
  The two scenarios of the specification: 6 l/100 km over 100 km at 1.60 gives 6 liters,
  a total cost of 9.600000000000001 and the same cost per 100 km; 15 km per liter over
  150 km at 1.50 gives 10 liters, a total cost of 15 and a cost of 10 per 100 km.
\<close>

theorem calculateCost_formulas_witness:
  "route scenario = Some route_100km
   \<and> truthy_str (selectedVehicleId scenario)
   \<and> List.find (\<lambda>v. Some (id_v v) = selectedVehicleId scenario) (vehicles scenario)
       = Some test_car
   \<and> calculation (calculateCost scenario scenario)
       = Some \<lparr> litersNeeded = Fin 6, totalCost = Fin (1351079888211149 / 2 ^ 47),
                 costPer100Km = Fin (1351079888211149 / 2 ^ 47) \<rparr>
   \<and> route scenario_kmpl = Some route_150km
   \<and> truthy_str (selectedVehicleId scenario_kmpl)
   \<and> List.find (\<lambda>v. Some (id_v v) = selectedVehicleId scenario_kmpl) (vehicles scenario_kmpl)
       = Some kmpl_car
   \<and> calculation (calculateCost scenario_kmpl scenario_kmpl)
       = Some \<lparr> litersNeeded = Fin 10, totalCost = Fin 15, costPer100Km = Fin 10 \<rparr>"
proof -
  have r: "route scenario = Some route_100km"
    by (simp add: scenario_def)
  have t: "truthy_str (selectedVehicleId scenario)"
    by (simp add: scenario_def)
  have f: "List.find (\<lambda>v. Some (id_v v) = selectedVehicleId scenario) (vehicles scenario)
             = Some test_car"
    by (simp add: scenario_def test_car_def)
  have p: "price (fuelPrice scenario) = Fin (3602879701896397 / 2 ^ 51)"
    by (simp only: literal_1_60 [symmetric]) (simp add: scenario_def initial_def)
  from calculateCost_formulas [OF r t f, of scenario] obtain c
    where c: "calculation (calculateCost scenario scenario) = Some c"
      and l: "litersNeeded c = jmul (distanceKm route_100km)
                (jdiv (if consumptionUnit test_car = KM_PER_L
                       then jdiv (Fin 100) (consumptionValue test_car)
                       else consumptionValue test_car) (Fin 100))"
      and tc: "totalCost c = jmul (litersNeeded c) (price (fuelPrice scenario))"
      and cp: "costPer100Km c = jmul (if consumptionUnit test_car = KM_PER_L
                       then jdiv (Fin 100) (consumptionValue test_car)
                       else consumptionValue test_car) (price (fuelPrice scenario))"
    by blast
  have n: "(if consumptionUnit test_car = KM_PER_L
            then jdiv (Fin 100) (consumptionValue test_car)
            else consumptionValue test_car) = Fin 6"
    by (simp add: test_car_def)
  have d: "distanceKm route_100km = Fin 100"
    by (simp add: route_100km_def)
  have l': "litersNeeded c = Fin 6"
    unfolding l n d six_per_100 by (rule liters_A)
  have tc': "totalCost c = Fin (1351079888211149 / 2 ^ 47)"
    unfolding tc l' p by (rule cost_A)
  have cp': "costPer100Km c = Fin (1351079888211149 / 2 ^ 47)"
    unfolding cp n p by (rule cost_A)
  have A: "calculation (calculateCost scenario scenario)
             = Some \<lparr> litersNeeded = Fin 6, totalCost = Fin (1351079888211149 / 2 ^ 47),
                       costPer100Km = Fin (1351079888211149 / 2 ^ 47) \<rparr>"
    unfolding c using l' tc' cp' by (cases c) simp
  have r2: "route scenario_kmpl = Some route_150km"
    by (simp add: scenario_kmpl_def)
  have t2: "truthy_str (selectedVehicleId scenario_kmpl)"
    by (simp add: scenario_kmpl_def)
  have f2: "List.find (\<lambda>v. Some (id_v v) = selectedVehicleId scenario_kmpl)
             (vehicles scenario_kmpl) = Some kmpl_car"
    by (simp add: scenario_kmpl_def test_car_def kmpl_car_def)
  have p2: "price (fuelPrice scenario_kmpl) = Fin (3 / 2)"
    by (simp add: scenario_kmpl_def)
  from calculateCost_formulas [OF r2 t2 f2, of scenario_kmpl] obtain c2
    where c2: "calculation (calculateCost scenario_kmpl scenario_kmpl) = Some c2"
      and l2: "litersNeeded c2 = jmul (distanceKm route_150km)
                (jdiv (if consumptionUnit kmpl_car = KM_PER_L
                       then jdiv (Fin 100) (consumptionValue kmpl_car)
                       else consumptionValue kmpl_car) (Fin 100))"
      and tc2: "totalCost c2 = jmul (litersNeeded c2) (price (fuelPrice scenario_kmpl))"
      and cp2: "costPer100Km c2 = jmul (if consumptionUnit kmpl_car = KM_PER_L
                       then jdiv (Fin 100) (consumptionValue kmpl_car)
                       else consumptionValue kmpl_car) (price (fuelPrice scenario_kmpl))"
    by blast
  have n2: "(if consumptionUnit kmpl_car = KM_PER_L
             then jdiv (Fin 100) (consumptionValue kmpl_car)
             else consumptionValue kmpl_car) = Fin (7505999378950827 / 2 ^ 50)"
    using rate_15_kmpl by (simp add: kmpl_car_def)
  have d2: "distanceKm route_150km = Fin 150"
    by (simp add: route_150km_def)
  have l2': "litersNeeded c2 = Fin 10"
    unfolding l2 n2 d2 rate_B_per_100 by (rule liters_B)
  have tc2': "totalCost c2 = Fin 15"
    unfolding tc2 l2' p2 by (rule cost_B)
  have cp2': "costPer100Km c2 = Fin 10"
    unfolding cp2 n2 p2 by (rule cost_per_100_B)
  have B: "calculation (calculateCost scenario_kmpl scenario_kmpl)
             = Some \<lparr> litersNeeded = Fin 10, totalCost = Fin 15, costPer100Km = Fin 10 \<rparr>"
    unfolding c2 using l2' tc2' cp2' by (cases c2) simp
  from r t f A r2 t2 f2 B show ?thesis by simp
qed

text \<open>
  C1 as stated fails. In the first scenario the total cost and the cost per 100 km are
  9.600000000000001, not the number 9.60; and for 7 l/100 km over 100 km the liters
  needed are 100 * (7 / 100) = 7.000000000000001, not 100 * 7 / 100 = 7.
\<close>

theorem calculateCost_rounding_counterexample:
  "calculation (calculateCost scenario scenario)
     = Some \<lparr> litersNeeded = Fin 6, totalCost = Fin (1351079888211149 / 2 ^ 47),
               costPer100Km = Fin (1351079888211149 / 2 ^ 47) \<rparr>
   \<and> round64 (48 / 5) = Fin (5404319552844595 / 2 ^ 49)
   \<and> Fin (1351079888211149 / 2 ^ 47) \<noteq> round64 (48 / 5)
   \<and> calculation (calculateCost scenario_seven scenario_seven)
     = Some \<lparr> litersNeeded = Fin (7881299347898369 / 2 ^ 50),
               totalCost = Fin (788129934789837 / 2 ^ 46),
               costPer100Km = Fin (6305039478318695 / 2 ^ 49) \<rparr>
   \<and> jdiv (jmul (Fin 100) (Fin 7)) (Fin 100) = Fin 7
   \<and> Fin (7881299347898369 / 2 ^ 50) \<noteq> jdiv (jmul (Fin 100) (Fin 7)) (Fin 100)"
proof -
  have p: "round64 (8 / 5) = Fin (3602879701896397 / 2 ^ 51)"
    by (rule literal_1_60)
  have A: "calculation (calculateCost scenario scenario)
     = Some \<lparr> litersNeeded = jmul (Fin 100) (jdiv (Fin 6) (Fin 100)),
               totalCost = jmul (jmul (Fin 100) (jdiv (Fin 6) (Fin 100))) (round64 (8 / 5)),
               costPer100Km = jmul (Fin 6) (round64 (8 / 5)) \<rparr>"
    by (simp add: calculateCost_def lPer100_def Let_def scenario_def initial_def test_car_def
        route_100km_def)
  have A': "calculation (calculateCost scenario scenario)
     = Some \<lparr> litersNeeded = Fin 6, totalCost = Fin (1351079888211149 / 2 ^ 47),
               costPer100Km = Fin (1351079888211149 / 2 ^ 47) \<rparr>"
    unfolding A p six_per_100 liters_A cost_A ..
  have C: "calculation (calculateCost scenario_seven scenario_seven)
     = Some \<lparr> litersNeeded = jmul (Fin 100) (jdiv (Fin 7) (Fin 100)),
               totalCost = jmul (jmul (Fin 100) (jdiv (Fin 7) (Fin 100))) (round64 (8 / 5)),
               costPer100Km = jmul (Fin 7) (round64 (8 / 5)) \<rparr>"
    by (simp add: calculateCost_def lPer100_def Let_def scenario_seven_def scenario_def
        initial_def seven_car_def route_100km_def)
  have C': "calculation (calculateCost scenario_seven scenario_seven)
     = Some \<lparr> litersNeeded = Fin (7881299347898369 / 2 ^ 50),
               totalCost = Fin (788129934789837 / 2 ^ 46),
               costPer100Km = Fin (6305039478318695 / 2 ^ 49) \<rparr>"
    unfolding C p seven_per_100 liters_C cost_C cost_per_100_C ..
  have D: "jdiv (jmul (Fin 100) (Fin 7)) (Fin 100) = Fin 7"
    unfolding product_C by (rule quotient_C)
  have E: "Fin (1351079888211149 / 2 ^ 47) \<noteq> round64 (48 / 5)"
    unfolding literal_9_60 by simp
  have F: "Fin (7881299347898369 / 2 ^ 50) \<noteq> jdiv (jmul (Fin 100) (Fin 7)) (Fin 100)"
    unfolding D by simp
  from A' C' D E F literal_9_60 show ?thesis by blast
qed

text \<open>
  C2, as the code has it. The normalized rate is \<open>100 / value\<close> whenever the unit is km
  per liter: the quotient rounded to binary64 for a value that is not zero, Infinity for
  the value 0 and \<open>-Infinity\<close> for the negative zero. It is the value itself when the
  unit is liters per 100 km. A consumption value of 0 therefore gives the rate 0 only for
  the unit liters per 100 km.
\<close>

theorem lPer100_rule:
  "(consumptionUnit v = KM_PER_L \<longrightarrow> lPer100 v = jdiv (Fin 100) (consumptionValue v))
   \<and> (consumptionUnit v = L_PER_100KM \<longrightarrow> lPer100 v = consumptionValue v)
   \<and> (consumptionUnit v = KM_PER_L \<and> consumptionValue v = Fin x \<and> x \<noteq> 0
        \<longrightarrow> lPer100 v = round64 (100 / x))
   \<and> (consumptionValue v = Fin 0
        \<longrightarrow> lPer100 v = (if consumptionUnit v = KM_PER_L then PInf else Fin 0))
   \<and> (consumptionValue v = NegZero
        \<longrightarrow> lPer100 v = (if consumptionUnit v = KM_PER_L then NInf else NegZero))"
  by (cases "consumptionUnit v") (simp_all add: lPer100_def jdiv_def signed_inf_def)

text \<open>
  0 km per liter gives Infinity, 6 l/100 km gives 6, 15 km per liter gives
  6.666666666666667 and 20 km per liter gives 5.
\<close>

theorem lPer100_rule_witness:
  "consumptionUnit zero_kmpl_car = KM_PER_L \<and> consumptionValue zero_kmpl_car = Fin 0
   \<and> lPer100 zero_kmpl_car = PInf
   \<and> consumptionUnit test_car = L_PER_100KM \<and> lPer100 test_car = Fin 6
   \<and> consumptionUnit kmpl_car = KM_PER_L \<and> consumptionValue kmpl_car = Fin 15
   \<and> lPer100 kmpl_car = Fin (7505999378950827 / 2 ^ 50)
   \<and> round64 (100 / 15) = Fin (7505999378950827 / 2 ^ 50)
   \<and> consumptionUnit (kmpl_car\<lparr>consumptionValue := Fin 20\<rparr>) = KM_PER_L
   \<and> lPer100 (kmpl_car\<lparr>consumptionValue := Fin 20\<rparr>) = Fin 5
   \<and> consumptionValue (zero_kmpl_car\<lparr>consumptionValue := NegZero\<rparr>) = NegZero
   \<and> lPer100 (zero_kmpl_car\<lparr>consumptionValue := NegZero\<rparr>) = NInf"
proof -
  have a: "consumptionUnit zero_kmpl_car = KM_PER_L" "consumptionValue zero_kmpl_car = Fin 0"
    "consumptionUnit test_car = L_PER_100KM" "consumptionValue test_car = Fin 6"
    "consumptionUnit kmpl_car = KM_PER_L" "consumptionValue kmpl_car = Fin 15"
    "consumptionUnit (kmpl_car\<lparr>consumptionValue := Fin 20\<rparr>) = KM_PER_L"
    "consumptionValue (kmpl_car\<lparr>consumptionValue := Fin 20\<rparr>) = Fin 20"
    "consumptionUnit (zero_kmpl_car\<lparr>consumptionValue := NegZero\<rparr>) = KM_PER_L"
    "consumptionValue (zero_kmpl_car\<lparr>consumptionValue := NegZero\<rparr>) = NegZero"
    by (simp_all add: zero_kmpl_car_def test_car_def kmpl_car_def)
  have b: "lPer100 zero_kmpl_car = PInf"
    using lPer100_rule [of zero_kmpl_car 1] a by (simp add: jdiv_def signed_inf_def)
  have c: "lPer100 test_car = Fin 6"
    using lPer100_rule [of test_car 1] a by simp
  have nz: "(15::rat) \<noteq> 0" by simp
  have d: "lPer100 kmpl_car = jdiv (Fin 100) (Fin 15)" "lPer100 kmpl_car = round64 (100 / 15)"
    using lPer100_rule [of kmpl_car 15] a(5,6) nz by metis+
  have e: "lPer100 (kmpl_car\<lparr>consumptionValue := Fin 20\<rparr>) = jdiv (Fin 100) (Fin 20)"
    using lPer100_rule [of "kmpl_car\<lparr>consumptionValue := Fin 20\<rparr>" 20] a by simp
  have f: "lPer100 (zero_kmpl_car\<lparr>consumptionValue := NegZero\<rparr>) = NInf"
    using lPer100_rule [of "zero_kmpl_car\<lparr>consumptionValue := NegZero\<rparr>" 1] a
    by (simp add: jdiv_def signed_inf_def)
  have g: "lPer100 kmpl_car = Fin (7505999378950827 / 2 ^ 50)"
    unfolding d(1) by (rule rate_15_kmpl)
  have h: "round64 (100 / 15) = Fin (7505999378950827 / 2 ^ 50)"
    using d(2) g by (rule subst)
  have i: "lPer100 (kmpl_car\<lparr>consumptionValue := Fin 20\<rparr>) = Fin 5"
    unfolding e by (rule rate_20_kmpl)
  from a b c f g h i show ?thesis by blast
qed

text \<open>
  C2 as stated fails: the vehicle with 0 km per liter has the normalized rate Infinity,
  not 0, and the calculation made with it is infinite.
\<close>

theorem lPer100_zero_counterexample:
  "consumptionValue zero_kmpl_car = Fin 0
   \<and> lPer100 zero_kmpl_car \<noteq> Fin 0
   \<and> calculation (calculateCost scenario_zero scenario_zero)
       = Some \<lparr> litersNeeded = PInf, totalCost = PInf, costPer100Km = PInf \<rparr>"
proof -
  have n: "lPer100 zero_kmpl_car = PInf"
    by (simp add: lPer100_def zero_kmpl_car_def jdiv_def signed_inf_def)
  have idz: "id_v zero_kmpl_car = ''v2''"
    by (simp add: zero_kmpl_car_def)
  have A: "calculation (calculateCost scenario_zero scenario_zero)
       = Some \<lparr> litersNeeded = jmul (Fin 100) (jdiv PInf (Fin 100)),
                 totalCost = jmul (jmul (Fin 100) (jdiv PInf (Fin 100))) (round64 (8 / 5)),
                 costPer100Km = jmul PInf (round64 (8 / 5)) \<rparr>"
    using n by (simp add: calculateCost_def Let_def scenario_zero_def scenario_def initial_def
        route_100km_def idz)
  have B: "jmul (Fin 100) (jdiv PInf (Fin 100)) = PInf"
    by (simp add: jmul_def jdiv_def signed_inf_def)
  have C: "jmul PInf (round64 (8 / 5)) = PInf"
    unfolding literal_1_60 by (simp add: jmul_def signed_inf_def)
  show ?thesis
    unfolding A B C using n by (simp add: zero_kmpl_car_def)
qed

text \<open>
  C3. When the route is absent or no vehicle is selected (the selected id is \<^verbatim>\<open>null\<close>,
  or the empty string), \<^verbatim>\<open>calculateCost\<close> sets the calculation to \<^verbatim>\<open>null\<close>, whatever
  the vehicle list, the fuel price and the calculation stored before.
\<close>

theorem calculateCost_absent:
  "route snap = None \<or> \<not> truthy_str (selectedVehicleId snap)
   \<Longrightarrow> calculation (calculateCost snap st) = None"
  by (auto simp: calculateCost_def split: option.splits)

theorem calculateCost_absent_witness:
  "route scenario_no_route = None
   \<and> calculation scenario_no_route = Some earlier_calculation
   \<and> calculation (calculateCost scenario_no_route scenario_no_route) = None
   \<and> \<not> truthy_str (selectedVehicleId scenario_no_selection)
   \<and> calculation scenario_no_selection = Some earlier_calculation
   \<and> calculation (calculateCost scenario_no_selection scenario_no_selection) = None"
proof -
  have a: "route scenario_no_route = None"
    by (simp add: scenario_no_route_def)
  have b: "\<not> truthy_str (selectedVehicleId scenario_no_selection)"
    by (simp add: scenario_no_selection_def)
  have "calculation (calculateCost scenario_no_route scenario_no_route) = None"
    using calculateCost_absent [of scenario_no_route scenario_no_route] a by simp
  moreover have "calculation (calculateCost scenario_no_selection scenario_no_selection) = None"
    using calculateCost_absent [of scenario_no_selection scenario_no_selection] b by simp
  ultimately show ?thesis
    using a b by (simp add: scenario_no_route_def scenario_no_selection_def)
qed

text \<open>
  C10. When a route is present and an id is selected, but no vehicle of the list has that
  id, \<^verbatim>\<open>calculateCost\<close> returns before any setter is called: the state, and with it the
  calculation stored before, stays as it was.
\<close>

theorem calculateCost_unknown_id:
  assumes "route snap = Some r"
    and "truthy_str (selectedVehicleId snap)"
    and "List.find (\<lambda>v. Some (id_v v) = selectedVehicleId snap) (vehicles snap) = None"
  shows "calculateCost snap st = st \<and> calculation (calculateCost snap st) = calculation st"
  using assms by (simp add: calculateCost_def)

theorem calculateCost_unknown_id_witness:
  "route scenario_unknown_id = Some route_100km
   \<and> truthy_str (selectedVehicleId scenario_unknown_id)
   \<and> List.find (\<lambda>v. Some (id_v v) = selectedVehicleId scenario_unknown_id)
        (vehicles scenario_unknown_id) = None
   \<and> calculation (calculateCost scenario_unknown_id scenario_unknown_id)
       = Some earlier_calculation"
proof -
  have r: "route scenario_unknown_id = Some route_100km"
    by (simp add: scenario_unknown_id_def scenario_def)
  have t: "truthy_str (selectedVehicleId scenario_unknown_id)"
    by (simp add: scenario_unknown_id_def)
  have f: "List.find (\<lambda>v. Some (id_v v) = selectedVehicleId scenario_unknown_id)
             (vehicles scenario_unknown_id) = None"
    by (simp add: scenario_unknown_id_def scenario_def test_car_def)
  have "calculation (calculateCost scenario_unknown_id scenario_unknown_id)
          = calculation scenario_unknown_id"
    using calculateCost_unknown_id [OF r t f, of scenario_unknown_id] by simp
  then show ?thesis
    using r t f by (simp add: scenario_unknown_id_def)
qed


section \<open>Properties of the remote services\<close>

text \<open>
  C6. The promise of \<^verbatim>\<open>searchLocation\<close> is never rejected. For a query of fewer than
  three characters it is fulfilled with the empty list and nothing is passed to
  \<^verbatim>\<open>fetch\<close>; when \<^verbatim>\<open>fetch\<close> is rejected, or the response is not \<^verbatim>\<open>ok\<close>, it is
  fulfilled with the empty list as well.
\<close>

theorem searchLocation_fails_open:
  "(\<exists>points. returned (searchLocation enc pf fetch query) = Fulfilled points)
   \<and> (length query < 3 \<longrightarrow>
        searchLocation enc pf fetch query = \<lparr> requested = [], returned = Fulfilled [] \<rparr>)
   \<and> (fetch (search_url enc query) = Rejected \<longrightarrow>
        returned (searchLocation enc pf fetch query) = Fulfilled [])
   \<and> ((\<exists>response. fetch (search_url enc query) = Fulfilled response \<and> \<not> ok response) \<longrightarrow>
        returned (searchLocation enc pf fetch query) = Fulfilled [])"
  by (auto simp: searchLocation_def searchLocation_try_def split: settled.splits sum.splits)

theorem searchLocation_fails_open_witness:
  "length ''Ma'' < 3
   \<and> searchLocation encode_word parseFloat_examples geocoder ''Ma''
       = \<lparr> requested = [], returned = Fulfilled [] \<rparr>
   \<and> unreachable (search_url encode_word ''Madrid'') = (Rejected :: NominatimResult list response settled)
   \<and> returned (searchLocation encode_word parseFloat_examples unreachable ''Madrid'') = Fulfilled []
   \<and> (\<exists>response. (unavailable :: NominatimResult list network) (search_url encode_word ''Madrid'')
          = Fulfilled response \<and> \<not> ok response)
   \<and> returned (searchLocation encode_word parseFloat_examples unavailable ''Madrid'') = Fulfilled []
   \<and> returned (searchLocation encode_word parseFloat_examples geocoder ''Madrid'') = Fulfilled [madrid]"
proof -
  have a: "length ''Ma'' < 3" by simp
  have b: "unreachable (search_url encode_word ''Madrid'')
             = (Rejected :: NominatimResult list response settled)"
    by (simp add: unreachable_def)
  have c: "\<exists>response. (unavailable :: NominatimResult list network)
             (search_url encode_word ''Madrid'') = Fulfilled response \<and> \<not> ok response"
    by (simp add: unavailable_def)
  have d: "returned (searchLocation encode_word parseFloat_examples geocoder ''Madrid'')
             = Fulfilled [madrid]"
    by (simp add: searchLocation_def searchLocation_try_def geocoder_def madrid_def
        parseFloat_examples_def)
  show ?thesis
    using a b c d
      searchLocation_fails_open [of encode_word parseFloat_examples geocoder "''Ma''"]
      searchLocation_fails_open [of encode_word parseFloat_examples unreachable "''Madrid''"]
      searchLocation_fails_open [of encode_word parseFloat_examples unavailable "''Madrid''"]
    by simp
qed

text \<open>
  C4. \<^verbatim>\<open>calculateRoute\<close> returns \<^verbatim>\<open>null\<close> exactly when no successful response arrived,
  or the provider's status code is not \<^verbatim>\<open>Ok\<close>, or there is no candidate route; otherwise
  it returns the first candidate, its distance divided by 1000 and its duration divided
  by 60. A rejected \<^verbatim>\<open>fetch\<close> counts as no successful response, a body that cannot be
  read as having no status code, a missing list as no candidate.
\<close>

theorem calculateRoute_contract:
  "calculateRoute toString JSON_stringify fetch start end' =
     (let x = fetch (route_url toString start end')
      in if \<not> response_successful x \<or> provider_code x \<noteq> Some ''Ok'' \<or> candidates x = []
         then None
         else Some \<lparr> distanceKm = jdiv (distance (hd (candidates x))) (Fin 1000),
                     durationMin = jdiv (duration (hd (candidates x))) (Fin 60),
                     geometry = JSON_stringify (geometry_json (hd (candidates x))) \<rparr>)"
  by (auto simp: calculateRoute_def calculateRoute_try_def response_successful_def
      provider_code_def candidates_def Let_def split: settled.splits option.splits list.splits)

theorem calculateRoute_contract_witness:
  "response_successful (router (route_url toString_examples madrid barcelona))
   \<and> provider_code (router (route_url toString_examples madrid barcelona)) = Some ''Ok''
   \<and> length (candidates (router (route_url toString_examples madrid barcelona))) = 2
   \<and> calculateRoute toString_examples stringify_text router madrid barcelona
       = Some \<lparr> distanceKm = Fin 150, durationMin = Fin 90,
                 geometry = [CHR 0x22] @ ''first'' @ [CHR 0x22] \<rparr>
   \<and> \<not> response_successful
         ((unavailable :: string osrm_data network) (route_url toString_examples madrid barcelona))
   \<and> calculateRoute toString_examples stringify_text unavailable madrid barcelona = None
   \<and> provider_code (router_no_route (route_url toString_examples madrid barcelona)) \<noteq> Some ''Ok''
   \<and> calculateRoute toString_examples stringify_text router_no_route madrid barcelona = None
   \<and> candidates (router_empty (route_url toString_examples madrid barcelona)) = []
   \<and> calculateRoute toString_examples stringify_text router_empty madrid barcelona = None"
  using calculateRoute_contract [of toString_examples stringify_text router madrid barcelona]
    calculateRoute_contract [of toString_examples stringify_text unavailable madrid barcelona]
    calculateRoute_contract [of toString_examples stringify_text router_no_route madrid barcelona]
    calculateRoute_contract [of toString_examples stringify_text router_empty madrid barcelona]
  by (simp add: response_successful_def provider_code_def candidates_def router_def
      unavailable_def router_no_route_def router_empty_def stringify_text_def
      meters_150000 seconds_5400)


section \<open>Properties of the application\<close>

subsection \<open>Autocomplete\<close>

lemma searchLocation_returned:
  "\<exists>points. returned (searchLocation enc pf fetch query) = Fulfilled points"
  by (simp add: searchLocation_def split: sum.splits)

text \<open>
  A search that settles stores its result, whatever the query is by then; the query and
  the other searches in flight stay as they are.
\<close>

lemma settled_search_applies:
  assumes "i < length (originSearches st)"
  shows "Fulfilled (originSuggestions (step enc pf st (SettledOriginSearch i net)))
           = returned (searchLocation enc pf net (originSearches st ! i))"
    and "debouncedOriginQuery (step enc pf st (SettledOriginSearch i net))
           = debouncedOriginQuery st"
    and "originSearches (step enc pf st (SettledOriginSearch i net))
           = take i (originSearches st) @ drop (Suc i) (originSearches st)"
proof -
  obtain points where
    "returned (searchLocation enc pf net (originSearches st ! i)) = Fulfilled points"
    using searchLocation_returned by blast
  with assms show
    "Fulfilled (originSuggestions (step enc pf st (SettledOriginSearch i net)))
       = returned (searchLocation enc pf net (originSearches st ! i))"
    "debouncedOriginQuery (step enc pf st (SettledOriginSearch i net))
       = debouncedOriginQuery st"
    "originSearches (step enc pf st (SettledOriginSearch i net))
       = take i (originSearches st) @ drop (Suc i) (originSearches st)"
    by (simp_all add: step_def Let_def)
qed

text \<open>
  A new query of three characters or more that is not the label of the selected origin
  starts a search beside those in flight; the label of the selected origin, or a shorter
  query, clears the suggestions and starts none. No case touches a search in flight.
\<close>

lemma new_query_searches:
  assumes "q \<noteq> debouncedOriginQuery st" and "2 < length q"
    and "map_option label (origin st) \<noteq> Some q"
  shows "step enc pf st (DebouncedOrigin q)
           = st\<lparr>debouncedOriginQuery := q, originSearches := originSearches st @ [q]\<rparr>"
  using assms by (cases "origin st") (simp_all add: step_def originEffect_def Let_def)

lemma new_query_clears:
  assumes "q \<noteq> debouncedOriginQuery st"
    and "map_option label (origin st) = Some q \<or> length q \<le> 2"
  shows "step enc pf st (DebouncedOrigin q)
           = st\<lparr>debouncedOriginQuery := q, originSuggestions := []\<rparr>"
  using assms by (cases "origin st") (auto simp: step_def originEffect_def Let_def)

text \<open>
  Two queries, the second issued while the search for the first is in flight, from any
  state: both searches are in flight behind those of the state.
\<close>

lemma two_queries_issued:
  assumes "q1 \<noteq> debouncedOriginQuery st" and "q2 \<noteq> q1"
    and "2 < length q1" and "2 < length q2"
    and "map_option label (origin st) \<noteq> Some q1" and "map_option label (origin st) \<noteq> Some q2"
  shows "run enc pf st [DebouncedOrigin q1, DebouncedOrigin q2]
           = st\<lparr>debouncedOriginQuery := q2, originSearches := originSearches st @ [q1, q2]\<rparr>"
proof -
  let ?s1 = "st\<lparr>debouncedOriginQuery := q1, originSearches := originSearches st @ [q1]\<rparr>"
  have 1: "step enc pf st (DebouncedOrigin q1) = ?s1"
    using assms by (intro new_query_searches) simp_all
  have 2: "step enc pf ?s1 (DebouncedOrigin q2)
             = ?s1\<lparr>debouncedOriginQuery := q2, originSearches := originSearches ?s1 @ [q2]\<rparr>"
    using assms by (intro new_query_searches) simp_all
  show ?thesis
    by (simp add: run_def 1 2)
qed

text \<open>
  C5, as the code has it. Nothing compares a result with the query it was made for. In
  every state, a search that settles stores its result as the suggestions and leaves the
  query alone; a new query starts a search and cancels none. So when a search for \<open>q1\<close>
  is issued and a search for \<open>q2\<close> is issued before it settles, whatever else is in
  flight and whether or not an origin is selected: if the search for \<open>q2\<close> settles
  first, its suggestions are shown until the search for \<open>q1\<close> settles, and then those of
  \<open>q1\<close> are shown while the query is \<open>q2\<close>; if the search for \<open>q1\<close> settles first,
  its suggestions are shown, while the query is \<open>q2\<close>, until the search for \<open>q2\<close>
  settles.
\<close>

theorem search_results_applied:
  "(i < length (originSearches st) \<longrightarrow>
      Fulfilled (originSuggestions (step enc pf st (SettledOriginSearch i net)))
        = returned (searchLocation enc pf net (originSearches st ! i))
      \<and> debouncedOriginQuery (step enc pf st (SettledOriginSearch i net))
        = debouncedOriginQuery st
      \<and> originSearches (step enc pf st (SettledOriginSearch i net))
        = take i (originSearches st) @ drop (Suc i) (originSearches st))
   \<and> (q \<noteq> debouncedOriginQuery st \<and> 2 < length q
        \<and> map_option label (origin st) \<noteq> Some q \<longrightarrow>
      step enc pf st (DebouncedOrigin q)
        = st\<lparr>debouncedOriginQuery := q, originSearches := originSearches st @ [q]\<rparr>)
   \<and> (q \<noteq> debouncedOriginQuery st
        \<and> (map_option label (origin st) = Some q \<or> length q \<le> 2) \<longrightarrow>
      step enc pf st (DebouncedOrigin q)
        = st\<lparr>debouncedOriginQuery := q, originSuggestions := []\<rparr>)
   \<and> (q1 \<noteq> debouncedOriginQuery st \<and> q2 \<noteq> q1 \<and> 2 < length q1 \<and> 2 < length q2
        \<and> map_option label (origin st) \<noteq> Some q1
        \<and> map_option label (origin st) \<noteq> Some q2 \<longrightarrow>
      (let n = length (originSearches st);
           issued = run enc pf st [DebouncedOrigin q1, DebouncedOrigin q2]
       in debouncedOriginQuery issued = q2
          \<and> originSearches issued = originSearches st @ [q1, q2]
          \<and> Fulfilled (originSuggestions
               (run enc pf issued [SettledOriginSearch (n + 1) net]))
             = returned (searchLocation enc pf net q2)
          \<and> Fulfilled (originSuggestions
               (run enc pf issued [SettledOriginSearch (n + 1) net, SettledOriginSearch n net']))
             = returned (searchLocation enc pf net' q1)
          \<and> debouncedOriginQuery
               (run enc pf issued [SettledOriginSearch (n + 1) net, SettledOriginSearch n net'])
             = q2
          \<and> Fulfilled (originSuggestions (run enc pf issued [SettledOriginSearch n net']))
             = returned (searchLocation enc pf net' q1)
          \<and> debouncedOriginQuery (run enc pf issued [SettledOriginSearch n net']) = q2
          \<and> Fulfilled (originSuggestions
               (run enc pf issued [SettledOriginSearch n net', SettledOriginSearch n net]))
             = returned (searchLocation enc pf net q2)))"
proof -
  have P1: "i < length (originSearches st) \<longrightarrow>
      Fulfilled (originSuggestions (step enc pf st (SettledOriginSearch i net)))
        = returned (searchLocation enc pf net (originSearches st ! i))
      \<and> debouncedOriginQuery (step enc pf st (SettledOriginSearch i net))
        = debouncedOriginQuery st
      \<and> originSearches (step enc pf st (SettledOriginSearch i net))
        = take i (originSearches st) @ drop (Suc i) (originSearches st)"
    using settled_search_applies by blast
  have P2: "q \<noteq> debouncedOriginQuery st \<and> 2 < length q
        \<and> map_option label (origin st) \<noteq> Some q \<longrightarrow>
      step enc pf st (DebouncedOrigin q)
        = st\<lparr>debouncedOriginQuery := q, originSearches := originSearches st @ [q]\<rparr>"
    using new_query_searches by blast
  have P3: "q \<noteq> debouncedOriginQuery st
        \<and> (map_option label (origin st) = Some q \<or> length q \<le> 2) \<longrightarrow>
      step enc pf st (DebouncedOrigin q)
        = st\<lparr>debouncedOriginQuery := q, originSuggestions := []\<rparr>"
    using new_query_clears by blast
  have P4: "q1 \<noteq> debouncedOriginQuery st \<and> q2 \<noteq> q1 \<and> 2 < length q1 \<and> 2 < length q2
        \<and> map_option label (origin st) \<noteq> Some q1
        \<and> map_option label (origin st) \<noteq> Some q2 \<longrightarrow>
      (let n = length (originSearches st);
           issued = run enc pf st [DebouncedOrigin q1, DebouncedOrigin q2]
       in debouncedOriginQuery issued = q2
          \<and> originSearches issued = originSearches st @ [q1, q2]
          \<and> Fulfilled (originSuggestions
               (run enc pf issued [SettledOriginSearch (n + 1) net]))
             = returned (searchLocation enc pf net q2)
          \<and> Fulfilled (originSuggestions
               (run enc pf issued [SettledOriginSearch (n + 1) net, SettledOriginSearch n net']))
             = returned (searchLocation enc pf net' q1)
          \<and> debouncedOriginQuery
               (run enc pf issued [SettledOriginSearch (n + 1) net, SettledOriginSearch n net'])
             = q2
          \<and> Fulfilled (originSuggestions (run enc pf issued [SettledOriginSearch n net']))
             = returned (searchLocation enc pf net' q1)
          \<and> debouncedOriginQuery (run enc pf issued [SettledOriginSearch n net']) = q2
          \<and> Fulfilled (originSuggestions
               (run enc pf issued [SettledOriginSearch n net', SettledOriginSearch n net]))
             = returned (searchLocation enc pf net q2))"
  proof
    assume h: "q1 \<noteq> debouncedOriginQuery st \<and> q2 \<noteq> q1 \<and> 2 < length q1 \<and> 2 < length q2
          \<and> map_option label (origin st) \<noteq> Some q1
          \<and> map_option label (origin st) \<noteq> Some q2"
    define n where "n = length (originSearches st)"
    have len: "length (originSearches st) = n" by (simp add: n_def)
    define issued where "issued = run enc pf st [DebouncedOrigin q1, DebouncedOrigin q2]"
    have issued: "issued
        = st\<lparr>debouncedOriginQuery := q2, originSearches := originSearches st @ [q1, q2]\<rparr>"
      unfolding issued_def using h by (intro two_queries_issued) simp_all
    have q: "debouncedOriginQuery issued = q2"
      and s: "originSearches issued = originSearches st @ [q1, q2]"
      by (simp_all add: issued)
    have i1: "Suc n < length (originSearches issued)" and i0: "n < length (originSearches issued)"
      by (simp_all add: s len)
    have at1: "originSearches issued ! (Suc n) = q2" and at0: "originSearches issued ! n = q1"
      by (simp_all add: s len nth_append)
    let ?a = "step enc pf issued (SettledOriginSearch (Suc n) net)"
    let ?b = "step enc pf issued (SettledOriginSearch n net')"
    have a: "Fulfilled (originSuggestions ?a) = returned (searchLocation enc pf net q2)"
      "debouncedOriginQuery ?a = q2" "originSearches ?a = originSearches st @ [q1]"
      using settled_search_applies [OF i1, of enc pf net] by (simp_all add: q s len nth_append)
    have b: "Fulfilled (originSuggestions ?b) = returned (searchLocation enc pf net' q1)"
      "debouncedOriginQuery ?b = q2" "originSearches ?b = originSearches st @ [q2]"
      using settled_search_applies [OF i0, of enc pf net'] by (simp_all add: q s len nth_append)
    have a0: "n < length (originSearches ?a)" "originSearches ?a ! n = q1"
      by (simp_all add: a len nth_append)
    have b0: "n < length (originSearches ?b)" "originSearches ?b ! n = q2"
      by (simp_all add: b len nth_append)
    have aa: "Fulfilled (originSuggestions (step enc pf ?a (SettledOriginSearch n net')))
                = returned (searchLocation enc pf net' q1)"
      "debouncedOriginQuery (step enc pf ?a (SettledOriginSearch n net')) = q2"
      using settled_search_applies [OF a0(1), of enc pf net'] by (simp_all add: a len nth_append)
    have bb: "Fulfilled (originSuggestions (step enc pf ?b (SettledOriginSearch n net)))
                = returned (searchLocation enc pf net q2)"
      using settled_search_applies [OF b0(1), of enc pf net] by (simp add: b len nth_append)
    show "let n = length (originSearches st);
             issued = run enc pf st [DebouncedOrigin q1, DebouncedOrigin q2]
         in debouncedOriginQuery issued = q2
            \<and> originSearches issued = originSearches st @ [q1, q2]
            \<and> Fulfilled (originSuggestions
                 (run enc pf issued [SettledOriginSearch (n + 1) net]))
               = returned (searchLocation enc pf net q2)
            \<and> Fulfilled (originSuggestions
                 (run enc pf issued [SettledOriginSearch (n + 1) net, SettledOriginSearch n net']))
               = returned (searchLocation enc pf net' q1)
            \<and> debouncedOriginQuery
                 (run enc pf issued [SettledOriginSearch (n + 1) net, SettledOriginSearch n net'])
               = q2
            \<and> Fulfilled (originSuggestions (run enc pf issued [SettledOriginSearch n net']))
               = returned (searchLocation enc pf net' q1)
            \<and> debouncedOriginQuery (run enc pf issued [SettledOriginSearch n net']) = q2
            \<and> Fulfilled (originSuggestions
                 (run enc pf issued [SettledOriginSearch n net', SettledOriginSearch n net]))
               = returned (searchLocation enc pf net q2)"
      unfolding Let_def n_def [symmetric] issued_def [symmetric]
      using q s a(1) aa b(1,2) bb by (simp add: run_def)
  qed
  show ?thesis
    by (intro conjI P1 P2 P3 P4)
qed

text \<open>
  Madrid, then Barcelona, typed into the fresh page with Madrid still selected as the
  origin of an earlier trip in the second case.
\<close>

theorem search_results_applied_witness:
  "''Madrid'' \<noteq> debouncedOriginQuery (initial ''2024-01-01T10:00:00.000Z'' empty_storage)
   \<and> ''Barcelona'' \<noteq> ''Madrid'' \<and> 2 < length ''Madrid'' \<and> 2 < length ''Barcelona''
   \<and> map_option label (origin (initial ''2024-01-01T10:00:00.000Z'' empty_storage))
       \<noteq> Some ''Madrid''
   \<and> map_option label (origin (initial ''2024-01-01T10:00:00.000Z'' empty_storage))
       \<noteq> Some ''Barcelona''
   \<and> returned (searchLocation encode_word parseFloat_examples geocoder ''Madrid'')
       = Fulfilled [madrid]
   \<and> returned (searchLocation encode_word parseFloat_examples geocoder ''Barcelona'')
       = Fulfilled [barcelona]
   \<and> originSuggestions
        (run encode_word parseFloat_examples
           (run encode_word parseFloat_examples
              (initial ''2024-01-01T10:00:00.000Z'' empty_storage)
              [DebouncedOrigin ''Madrid'', DebouncedOrigin ''Barcelona''])
           [SettledOriginSearch 1 geocoder, SettledOriginSearch 0 geocoder]) = [madrid]
   \<and> originSuggestions
        (run encode_word parseFloat_examples
           (run encode_word parseFloat_examples
              (initial ''2024-01-01T10:00:00.000Z'' empty_storage)
              [DebouncedOrigin ''Madrid'', DebouncedOrigin ''Barcelona''])
           [SettledOriginSearch 0 geocoder]) = [madrid]
   \<and> (0::nat) < length [''Madrid'']
   \<and> originSuggestions
        (step encode_word parseFloat_examples
           ((initial ''2024-01-01T10:00:00.000Z'' empty_storage)
              \<lparr>debouncedOriginQuery := ''Barcelona'', originSearches := [''Madrid'']\<rparr>)
           (SettledOriginSearch 0 geocoder)) = [madrid]
   \<and> map_option label (origin ((initial ''2024-01-01T10:00:00.000Z'' empty_storage)
        \<lparr>origin := Some madrid, originSuggestions := [barcelona]\<rparr>)) = Some ''Madrid''
   \<and> step encode_word parseFloat_examples
        ((initial ''2024-01-01T10:00:00.000Z'' empty_storage)
           \<lparr>origin := Some madrid, originSuggestions := [barcelona]\<rparr>)
        (DebouncedOrigin ''Madrid'')
      = (initial ''2024-01-01T10:00:00.000Z'' empty_storage)
          \<lparr>origin := Some madrid, originSuggestions := [barcelona],
            debouncedOriginQuery := ''Madrid'', originSuggestions := []\<rparr>"
proof -
  let ?st = "initial ''2024-01-01T10:00:00.000Z'' empty_storage"
  let ?one = "?st\<lparr>debouncedOriginQuery := ''Barcelona'', originSearches := [''Madrid'']\<rparr>"
  let ?sel = "?st\<lparr>origin := Some madrid, originSuggestions := [barcelona]\<rparr>"
  have h: "''Madrid'' \<noteq> debouncedOriginQuery ?st \<and> ''Barcelona'' \<noteq> ''Madrid''
      \<and> 2 < length ''Madrid'' \<and> 2 < length ''Barcelona''
      \<and> map_option label (origin ?st) \<noteq> Some ''Madrid''
      \<and> map_option label (origin ?st) \<noteq> Some ''Barcelona''"
    by (simp add: initial_def)
  have n: "length (originSearches ?st) = 0"
    by (simp add: initial_def)
  have m: "returned (searchLocation encode_word parseFloat_examples geocoder ''Madrid'')
             = Fulfilled [madrid]"
    by (simp add: searchLocation_def searchLocation_try_def geocoder_def madrid_def
        parseFloat_examples_def)
  have b: "returned (searchLocation encode_word parseFloat_examples geocoder ''Barcelona'')
             = Fulfilled [barcelona]"
    by (simp add: searchLocation_def searchLocation_try_def geocoder_def barcelona_def
        parseFloat_examples_def search_url_def encode_word_def)
  have i: "0 < length (originSearches ?one)" "originSearches ?one ! 0 = ''Madrid''"
    by simp_all
  have s: "''Madrid'' \<noteq> debouncedOriginQuery ?sel
      \<and> (map_option label (origin ?sel) = Some ''Madrid'' \<or> length ''Madrid'' \<le> 2)"
    by (simp add: initial_def madrid_def)
  note two = search_results_applied [of _ ?st encode_word parseFloat_examples geocoder
      "''Madrid''" "''Madrid''" "''Barcelona''" geocoder]
  note one = search_results_applied [of 0 ?one encode_word parseFloat_examples geocoder
      "''Madrid''" "''Madrid''" "''Barcelona''" geocoder]
  note sel = search_results_applied [of 0 ?sel encode_word parseFloat_examples geocoder
      "''Madrid''" "''Madrid''" "''Barcelona''" geocoder]
  have A: "originSuggestions
        (run encode_word parseFloat_examples
           (run encode_word parseFloat_examples ?st
              [DebouncedOrigin ''Madrid'', DebouncedOrigin ''Barcelona''])
           [SettledOriginSearch 1 geocoder, SettledOriginSearch 0 geocoder]) = [madrid]"
    "originSuggestions
        (run encode_word parseFloat_examples
           (run encode_word parseFloat_examples ?st
              [DebouncedOrigin ''Madrid'', DebouncedOrigin ''Barcelona''])
           [SettledOriginSearch 0 geocoder]) = [madrid]"
    using two h by (simp_all add: Let_def n m)
  have B: "originSuggestions
        (step encode_word parseFloat_examples ?one (SettledOriginSearch 0 geocoder)) = [madrid]"
    using one i by (simp add: m)
  have C: "step encode_word parseFloat_examples ?sel (DebouncedOrigin ''Madrid'')
      = ?sel\<lparr>debouncedOriginQuery := ''Madrid'', originSuggestions := []\<rparr>"
    using sel s by blast
  from h m b A B C s show ?thesis by simp
qed

text \<open>
  C5 as stated fails: after Madrid and Barcelona have been typed and the search for
  Madrid has settled last, the query is Barcelona and the list shows Madrid.
\<close>

theorem stale_guard_counterexample:
  "debouncedOriginQuery
     (run encode_word parseFloat_examples (mount ''2024-01-01T10:00:00.000Z'' empty_storage)
        madrid_then_barcelona) = ''Barcelona''
   \<and> originSuggestions
     (run encode_word parseFloat_examples (mount ''2024-01-01T10:00:00.000Z'' empty_storage)
        madrid_then_barcelona) = [madrid]
   \<and> returned (searchLocation encode_word parseFloat_examples geocoder ''Barcelona'')
       = Fulfilled [barcelona]"
  by (simp add: run_def step_def originEffect_def Let_def madrid_then_barcelona_def mount_def
      initial_def initEffect_def refreshFuelPrice_def selectionEffect_def persistVehicles_def
      persistSelected_def persistPrice_def calculateCost_def empty_storage_def
      getStoredPrice_def saveStoredVehicles_def saveStoredPrice_def
      searchLocation_def searchLocation_try_def geocoder_def madrid_def barcelona_def
      parseFloat_examples_def search_url_def encode_word_def)

subsection \<open>Saving and deleting vehicles\<close>

lemma findIndex_Some: "findIndex P xs = Some i \<Longrightarrow> i < length xs \<and> P (xs ! i)"
  by (induction xs arbitrary: i) (auto split: if_splits option.splits)

lemma upsert_member:
  "v \<in> set (case findIndex P xs of Some idx \<Rightarrow> xs[idx := v] | None \<Rightarrow> xs @ [v])"
  by (auto split: option.splits dest!: findIndex_Some simp: set_update_memI)

text \<open>
  C9. When the remote save or delete is rejected, the alert is raised and the vehicle
  list and the selection stay as they were: the only change is the alert. When it is
  fulfilled, no alert is raised and the list is updated: the saved vehicle is in it, the
  deleted id is not.
\<close>

theorem vehicle_mutations_atomic:
  "handleSaveVehicle_settled snap Rejected v st = st\<lparr>alerts := alerts st @ [SaveVehicleFailed]\<rparr>
   \<and> vehicles (handleSaveVehicle_settled snap Rejected v st) = vehicles st
   \<and> selectedVehicleId (handleSaveVehicle_settled snap Rejected v st) = selectedVehicleId st
   \<and> handleDeleteVehicle_settled snap Rejected i st
       = st\<lparr>alerts := alerts st @ [DeleteVehicleFailed]\<rparr>
   \<and> vehicles (handleDeleteVehicle_settled snap Rejected i st) = vehicles st
   \<and> selectedVehicleId (handleDeleteVehicle_settled snap Rejected i st) = selectedVehicleId st
   \<and> alerts (handleSaveVehicle_settled snap (Fulfilled ()) v st) = alerts st
   \<and> v \<in> set (vehicles (handleSaveVehicle_settled snap (Fulfilled ()) v st))
   \<and> alerts (handleDeleteVehicle_settled snap (Fulfilled ()) i st) = alerts st
   \<and> vehicles (handleDeleteVehicle_settled snap (Fulfilled ()) i st)
       = filter (\<lambda>u. id_v u \<noteq> i) (vehicles st)"
  by (simp add: handleSaveVehicle_settled_def handleDeleteVehicle_settled_def Let_def
      upsert_member)

theorem vehicle_mutations_atomic_witness:
  "vehicles (handleSaveVehicle_settled scenario Rejected zero_kmpl_car scenario) = [test_car]
   \<and> selectedVehicleId (handleSaveVehicle_settled scenario Rejected zero_kmpl_car scenario)
       = Some ''v1''
   \<and> alerts (handleSaveVehicle_settled scenario Rejected zero_kmpl_car scenario)
       = [SaveVehicleFailed]
   \<and> vehicles (handleDeleteVehicle_settled scenario Rejected ''v1'' scenario) = [test_car]
   \<and> selectedVehicleId (handleDeleteVehicle_settled scenario Rejected ''v1'' scenario)
       = Some ''v1''
   \<and> alerts (handleDeleteVehicle_settled scenario Rejected ''v1'' scenario)
       = [DeleteVehicleFailed]
   \<and> vehicles (handleDeleteVehicle_settled scenario (Fulfilled ()) ''v1'' scenario) = []"
  using vehicle_mutations_atomic [of scenario zero_kmpl_car scenario "''v1''"]
  by (simp add: scenario_def initial_def test_car_def)

subsection \<open>Loading the vehicles\<close>

text \<open>
  What the continuation of \<^verbatim>\<open>initializeData\<close> adopts: the fetched list when the fetch
  is fulfilled with a nonempty list, and what the local storage holds at that moment
  otherwise.
\<close>

lemma initializeData_settled_vehicles:
  "vehicles (initializeData_settled fetched st) =
     (case fetched of
        Fulfilled fv \<Rightarrow> if fv \<noteq> [] then fv else getStoredVehicles (storage st)
      | Rejected \<Rightarrow> getStoredVehicles (storage st))"
  by (simp add: initializeData_settled_def split: settled.splits)

text \<open>
  What the selection effect selects in a render with vehicles and no selection: the
  stored id when it is nonempty and a vehicle of the list has it, the id of the first
  vehicle otherwise. In a render without vehicles it selects nothing.
\<close>

lemma selectionEffect_default:
  assumes "vehicles snap = first # others" and "\<not> truthy_str (selectedVehicleId snap)"
  shows "selectedVehicleId (selectionEffect snap st) =
           (if truthy_str (getStoredSelectedVehicleId (storage st))
               \<and> (\<exists>v \<in> set (vehicles snap). Some (id_v v) = getStoredSelectedVehicleId (storage st))
            then getStoredSelectedVehicleId (storage st)
            else Some (id_v first))"
proof -
  have "List.find P xs \<noteq> None \<longleftrightarrow> (\<exists>x \<in> set xs. P x)" for P :: "Vehicle \<Rightarrow> bool" and xs
    by (auto simp: find_None_iff)
  then show ?thesis
    using assms by (auto simp: selectionEffect_def Let_def simp del: find.simps)
qed

lemma selectionEffect_no_vehicles: "vehicles snap = [] \<Longrightarrow> selectionEffect snap st = st"
  by (simp add: selectionEffect_def)

text \<open>
  The first render persists its own, empty, vehicle list before \<^verbatim>\<open>getVehicles\<close> can
  settle: whatever the storage held at load, it holds the empty list when the fallback
  reads it, and the fallback yields no vehicle.
\<close>

lemma mount_stored_vehicles: "VEHICLES (storage (mount now ls)) = Some (Serialized [])"
  by (simp add: mount_def Let_def initial_def initEffect_def refreshFuelPrice_def
      selectionEffect_def persistVehicles_def persistSelected_def persistPrice_def
      originEffect_def calculateCost_def saveStoredVehicles_def saveStoredPrice_def
      split: option.splits)

lemma load_without_remote_vehicles:
  "fetched = Rejected \<or> fetched = Fulfilled []
   \<Longrightarrow> vehicles (initializeData_settled fetched (mount now ls)) = []"
  by (auto simp: initializeData_settled_vehicles getStoredVehicles_def mount_stored_vehicles)

text \<open>
  C7 at a storage that holds one vehicle from an earlier visit, when the remote fetch
  fails or returns no vehicle: the claim gives the stored vehicle, the program an empty
  list and no selection.
\<close>

theorem load_forgets_stored_vehicles:
  "getStoredVehicles garage = [test_car]
   \<and> getStoredVehicles (storage (mount ''2024-01-02T10:00:00.000Z'' garage)) = []
   \<and> vehicles (initializeData_settled Rejected (mount ''2024-01-02T10:00:00.000Z'' garage)) = []
   \<and> vehicles (initializeData_settled (Fulfilled [])
                 (mount ''2024-01-02T10:00:00.000Z'' garage)) = []
   \<and> selectedVehicleId
        (selectionEffect
           (initializeData_settled Rejected (mount ''2024-01-02T10:00:00.000Z'' garage))
           (initializeData_settled Rejected (mount ''2024-01-02T10:00:00.000Z'' garage))) = None"
  by (simp add: garage_def getStoredVehicles_def initializeData_settled_def selectionEffect_def
      mount_def Let_def initial_def initEffect_def refreshFuelPrice_def
      persistVehicles_def persistSelected_def persistPrice_def
      originEffect_def calculateCost_def saveStoredVehicles_def saveStoredPrice_def
      getStoredPrice_def)

subsection \<open>The fuel price\<close>

lemma truthy_reparsed: "truthy_num (reparsed x) = truthy_num x"
  by (cases x) simp_all

lemma mount_price:
  "(getStoredPrice ls = Some p \<and> truthy_num p \<longrightarrow>
      fuelPrice (mount now ls) = \<lparr> price = p, lastUpdated = now, isAuto = False \<rparr>
      \<and> priceFetches (mount now ls) = 0)
   \<and> (getStoredPrice ls = None \<or> getStoredPrice ls = Some NaN \<longrightarrow>
      priceFetches (mount now ls) = 1 \<and> priceLoading (mount now ls)
      \<and> isAuto (fuelPrice (mount now ls)))"
  by (auto simp: mount_def Let_def initial_def initEffect_def refreshFuelPrice_def
      selectionEffect_def persistVehicles_def persistSelected_def persistPrice_def
      originEffect_def calculateCost_def)

lemma persistPrice_stores:
  "LAST_PRICE (storage (persistPrice snap st)) = Some (NumberText (reparsed (price (fuelPrice snap))))"
  "getStoredPrice (storage (persistPrice snap st)) = Some (reparsed (price (fuelPrice snap)))"
  by (simp_all add: persistPrice_def saveStoredPrice_def getStoredPrice_def)

text \<open>
  C8, as the code has it. The storage keeps the last price, whatever its origin, and no
  flag: every render whose price has changed stores that price, the price of an
  automatic refresh as well as a typed one. On load a stored price that is a nonzero
  number is adopted with the flag manual and no refresh starts, so the price that an
  automatic refresh stored comes back as a manual one; when no price is stored, or the
  stored text is not a number, a refresh starts, and when it resolves it sets the flag
  auto and the timestamp. A manual edit sets the flag manual and keeps the timestamp;
  every refresh that resolves sets the flag auto and the timestamp.
\<close>

theorem fuel_price_facet:
  "(getStoredPrice ls = Some p \<and> truthy_num p \<longrightarrow>
      fuelPrice (mount now ls) = \<lparr> price = p, lastUpdated = now, isAuto = False \<rparr>
      \<and> priceFetches (mount now ls) = 0)
   \<and> (getStoredPrice ls = None \<or> getStoredPrice ls = Some NaN \<longrightarrow>
      priceFetches (mount now ls) = 1 \<and> priceLoading (mount now ls)
      \<and> isAuto (fuelPrice (mount now ls))
      \<and> fuelPrice (refreshFuelPrice_settled (Fulfilled q) t (mount now ls))
          = \<lparr> price = q, lastUpdated = t, isAuto = True \<rparr>)
   \<and> fuelPrice (priceInput_onChange snap typed st)
       = \<lparr> price = typed, lastUpdated = lastUpdated (fuelPrice snap), isAuto = False \<rparr>
   \<and> fuelPrice (refreshFuelPrice_settled (Fulfilled q) t st)
       = \<lparr> price = q, lastUpdated = t, isAuto = True \<rparr>
   \<and> LAST_PRICE (storage (persistPrice snap st'))
       = Some (NumberText (reparsed (price (fuelPrice snap))))
   \<and> LAST_PRICE (storage (persistPrice (refreshFuelPrice_settled (Fulfilled q) t st) st'))
       = Some (NumberText (reparsed q))
   \<and> LAST_PRICE (storage (persistPrice (priceInput_onChange snap typed st) st'))
       = Some (NumberText (reparsed typed))
   \<and> (truthy_num q \<longrightarrow>
      fuelPrice (mount now
         (storage (persistPrice (refreshFuelPrice_settled (Fulfilled q) t st) st')))
        = \<lparr> price = reparsed q, lastUpdated = now, isAuto = False \<rparr>
      \<and> priceFetches (mount now
         (storage (persistPrice (refreshFuelPrice_settled (Fulfilled q) t st) st'))) = 0)"
proof -
  have a: "fuelPrice (refreshFuelPrice_settled (Fulfilled q) t s)
             = \<lparr> price = q, lastUpdated = t, isAuto = True \<rparr>" for s
    by (simp add: refreshFuelPrice_settled_def)
  have b: "fuelPrice (priceInput_onChange snap typed st)
       = \<lparr> price = typed, lastUpdated = lastUpdated (fuelPrice snap), isAuto = False \<rparr>"
    by (simp add: priceInput_onChange_def)
  have c: "getStoredPrice
             (storage (persistPrice (refreshFuelPrice_settled (Fulfilled q) t st) st'))
           = Some (reparsed q)"
    by (simp add: persistPrice_stores a)
  have d: "truthy_num q \<Longrightarrow>
      fuelPrice (mount now
         (storage (persistPrice (refreshFuelPrice_settled (Fulfilled q) t st) st')))
        = \<lparr> price = reparsed q, lastUpdated = now, isAuto = False \<rparr>
      \<and> priceFetches (mount now
         (storage (persistPrice (refreshFuelPrice_settled (Fulfilled q) t st) st'))) = 0"
    using mount_price [of "storage (persistPrice (refreshFuelPrice_settled (Fulfilled q) t st) st')"
        "reparsed q" now] c
    by (simp add: truthy_reparsed)
  show ?thesis
    using mount_price [of ls p now] a b d by (simp add: persistPrice_stores)
qed

theorem fuel_price_facet_witness:
  "getStoredPrice (storage first_visit) = Some (Fin (13 / 8))
   \<and> truthy_num (Fin (13 / 8))
   \<and> isAuto (fuelPrice first_visit)
   \<and> fuelPrice (mount ''2024-01-02T10:00:00.000Z'' (storage first_visit))
       = \<lparr> price = Fin (13 / 8), lastUpdated = ''2024-01-02T10:00:00.000Z'',
           isAuto = False \<rparr>
   \<and> (getStoredPrice empty_storage = None \<or> getStoredPrice empty_storage = Some NaN)
   \<and> priceFetches (mount ''2024-01-01T10:00:00.000Z'' empty_storage) = 1
   \<and> fuelPrice (refreshFuelPrice_settled (Fulfilled (Fin (13 / 8)))
        ''2024-01-01T10:00:01.000Z'' (mount ''2024-01-01T10:00:00.000Z'' empty_storage))
       = \<lparr> price = Fin (13 / 8), lastUpdated = ''2024-01-01T10:00:01.000Z'',
           isAuto = True \<rparr>
   \<and> fuelPrice (mount ''2024-01-02T10:00:00.000Z''
        (storage (persistPrice
           (refreshFuelPrice_settled (Fulfilled (Fin (13 / 8))) ''2024-01-01T10:00:01.000Z''
              (mount ''2024-01-01T10:00:00.000Z'' empty_storage))
           (mount ''2024-01-01T10:00:00.000Z'' empty_storage))))
       = \<lparr> price = Fin (13 / 8), lastUpdated = ''2024-01-02T10:00:00.000Z'',
           isAuto = False \<rparr>"
proof -
  have a: "getStoredPrice (storage first_visit) = Some (Fin (13 / 8))"
    "isAuto (fuelPrice first_visit)"
    by (simp_all add: first_visit_def Let_def calculateCost_def persistPrice_def
        refreshFuelPrice_settled_def mount_def initial_def initEffect_def refreshFuelPrice_def
        selectionEffect_def persistVehicles_def persistSelected_def originEffect_def
        getStoredPrice_def saveStoredPrice_def saveStoredVehicles_def empty_storage_def)
  have b: "truthy_num (Fin (13 / 8))" by simp
  have c: "getStoredPrice empty_storage = None \<or> getStoredPrice empty_storage = Some NaN"
    by (simp add: getStoredPrice_def empty_storage_def)
  show ?thesis
    using a b c
      fuel_price_facet [of "storage first_visit" "Fin (13 / 8)"
        "''2024-01-02T10:00:00.000Z''"]
      fuel_price_facet [of empty_storage _ "''2024-01-01T10:00:00.000Z''"
        "Fin (13 / 8)" "''2024-01-01T10:00:01.000Z''"]
      fuel_price_facet [of _ _ "''2024-01-02T10:00:00.000Z''"
        "Fin (13 / 8)" "''2024-01-01T10:00:01.000Z''" _ _
        "mount ''2024-01-01T10:00:00.000Z'' empty_storage"
        "mount ''2024-01-01T10:00:00.000Z'' empty_storage"]
    by simp
qed

text \<open>
  C8 as stated fails. In the first visit the user never edits the price, so there is no
  stored manual price; at the next load the stored automatic price is adopted with the
  flag manual and no refresh starts. And a manual price of 0, once stored, is not
  adopted at the next load: a refresh starts and the flag stays auto.
\<close>

theorem stored_price_counterexample:
  "isAuto (fuelPrice first_visit)
   \<and> LAST_PRICE (storage first_visit) = Some (NumberText (Fin (13 / 8)))
   \<and> \<not> isAuto (fuelPrice (mount ''2024-01-02T10:00:00.000Z'' (storage first_visit)))
   \<and> priceFetches (mount ''2024-01-02T10:00:00.000Z'' (storage first_visit)) = 0
   \<and> \<not> isAuto (fuelPrice zero_price_visit)
   \<and> LAST_PRICE (storage zero_price_visit) = Some (NumberText (Fin 0))
   \<and> isAuto (fuelPrice (mount ''2024-01-02T10:00:00.000Z'' (storage zero_price_visit)))
   \<and> priceFetches (mount ''2024-01-02T10:00:00.000Z'' (storage zero_price_visit)) = 1"
  by (simp add: zero_price_visit_def priceInput_onChange_def
      first_visit_def Let_def calculateCost_def persistPrice_def
      refreshFuelPrice_settled_def mount_def initial_def initEffect_def refreshFuelPrice_def
      selectionEffect_def persistVehicles_def persistSelected_def originEffect_def
      getStoredPrice_def saveStoredPrice_def saveStoredVehicles_def empty_storage_def)

end
